theory Spec2Isabelle
  imports Complex_Main
begin

section \<open>Values of the JavaScript runtime\<close>

text \<open>
  A JavaScript number is NaN, an infinity or a finite double. Every finite double is a
  rational number and the only operation the poller applies to a number is the comparison
  with zero, which is exact, so the finite case carries the rational value (both zeros
  are \<open>Fin 0\<close>).
\<close>

datatype jsnum = NaN | NegInf | Fin rat | PosInf

text \<open>
  The result of \<open>response.json()\<close> is a JSON value. \<open>JUndefined\<close> is what a read
  of a property that does not exist yields; JSON itself never holds it.
\<close>

datatype jsval =
    JUndefined
  | JNull
  | JBool bool
  | JNum jsnum
  | JStr string
  | JArr "jsval list"
  | JObj "(string \<times> jsval) list"

text \<open>A thrown value (an Error object), known by its message.\<close>

datatype thrown = Thrown string

section \<open>Logging\<close>

datatype level = Debug | Info | Warn | Error

text \<open>
  A log message is kept as the pieces of the template literal, or the arguments of the
  call, that make it up: literal text, an HTTP status code, a string (one of the response,
  or the text that the template literal made of a value), or a caught exception.
\<close>

datatype part = Lit string | Code nat | Str string | Caught thrown

type_synonym log_entry = "level \<times> part list"

section \<open>The poll tasks\<close>

text \<open>
  The two conversions of the JavaScript engine that the comparison \<open>x > 0\<close> and a
  template literal may need and that the repository does not define: the numeric value of
  a string and the text of a number. They are parameters of the model.
\<close>

record engine =
  StringToNumber :: "string \<Rightarrow> jsnum"
  NumberToString :: "jsnum \<Rightarrow> string"

text \<open>The two TypeErrors that the engine raises in a poll task.\<close>

definition TypeError_read :: thrown where
  "TypeError_read = Thrown ''TypeError: Cannot read properties of null''"

definition TypeError_convert :: thrown where
  "TypeError_convert = Thrown ''TypeError: Cannot convert object to primitive value''"

fun join :: "string list \<Rightarrow> string" where
  "join [] = []"
| "join [x] = x"
| "join (x # y # ys) = x @ '','' @ join (y # ys)"

text \<open>
  \<open>ToString\<close>. An object parsed from JSON has no callable property of its own, so an
  object with a key \<open>toString\<close> hides the inherited method and cannot be converted: the
  engine throws a TypeError. Any other object is \<open>[object Object]\<close>. An array is its
  elements joined by commas, converted from left to right, null and undefined elements
  empty.
\<close>

fun ToString :: "engine \<Rightarrow> jsval \<Rightarrow> thrown + string"
  and ToStrings :: "engine \<Rightarrow> jsval list \<Rightarrow> thrown + string list" where
  "ToString E JUndefined = Inr ''undefined''"
| "ToString E JNull = Inr ''null''"
| "ToString E (JBool b) = Inr (if b then ''true'' else ''false'')"
| "ToString E (JNum n) = Inr (NumberToString E n)"
| "ToString E (JStr s) = Inr s"
| "ToString E (JArr xs) = (case ToStrings E xs of Inl e \<Rightarrow> Inl e | Inr ss \<Rightarrow> Inr (join ss))"
| "ToString E (JObj kvs) =
     (if ''toString'' \<in> set (map fst kvs) then Inl TypeError_convert else Inr ''[object Object]'')"
| "ToStrings E [] = Inr []"
| "ToStrings E (x # xs) =
     (case (if x = JUndefined \<or> x = JNull then Inr [] else ToString E x) of
        Inl e \<Rightarrow> Inl e
      | Inr s \<Rightarrow> (case ToStrings E xs of Inl e \<Rightarrow> Inl e | Inr ss \<Rightarrow> Inr (s # ss)))"

text \<open>
  \<open>ToNumber\<close>: arrays and objects are first converted to their text, which can throw.
\<close>

fun ToNumber :: "engine \<Rightarrow> jsval \<Rightarrow> thrown + jsnum" where
  "ToNumber E JUndefined = Inr NaN"
| "ToNumber E JNull = Inr (Fin 0)"
| "ToNumber E (JBool b) = Inr (if b then Fin 1 else Fin 0)"
| "ToNumber E (JNum n) = Inr n"
| "ToNumber E (JStr s) = Inr (StringToNumber E s)"
| "ToNumber E (JArr xs) =
     (case ToString E (JArr xs) of Inl e \<Rightarrow> Inl e | Inr s \<Rightarrow> Inr (StringToNumber E s))"
| "ToNumber E (JObj kvs) =
     (case ToString E (JObj kvs) of Inl e \<Rightarrow> Inl e | Inr s \<Rightarrow> Inr (StringToNumber E s))"

text \<open>The comparison \<open>v > 0\<close>: it throws when the conversion does, and is false on NaN.\<close>

definition gt_zero :: "engine \<Rightarrow> jsval \<Rightarrow> thrown + bool" where
  "gt_zero E v =
     (case ToNumber E v of
        Inl e \<Rightarrow> Inl e
      | Inr n \<Rightarrow> Inr (case n of NaN \<Rightarrow> False | NegInf \<Rightarrow> False | Fin q \<Rightarrow> 0 < q | PosInf \<Rightarrow> True))"

text \<open>The values that convert without a throw: those that hold no object with a key \<open>toString\<close>
  (inside arrays; what an object holds is never converted).\<close>

fun convertible :: "jsval \<Rightarrow> bool" where
  "convertible (JArr xs) = list_all convertible xs"
| "convertible (JObj kvs) = (''toString'' \<notin> set (map fst kvs))"
| "convertible v = True"

text \<open>The three properties that the poll tasks read of the parsed body.\<close>

datatype field = ExecutedCount | Total | Successful

fun field_name :: "field \<Rightarrow> string" where
  "field_name ExecutedCount = ''executedCount''"
| "field_name Total = ''total''"
| "field_name Successful = ''successful''"

text \<open>
  Reading one of them (no prototype defines a property of these names): of an object, its
  own property, the last one when the JSON text repeats the key; of any other value but
  null and undefined, undefined. On null and undefined the read throws a TypeError.
\<close>

fun prop_value :: "jsval \<Rightarrow> field \<Rightarrow> jsval" where
  "prop_value (JObj kvs) f =
     (case map_of (rev kvs) (field_name f) of None \<Rightarrow> JUndefined | Some v \<Rightarrow> v)"
| "prop_value v f = JUndefined"

fun get_prop :: "jsval \<Rightarrow> field \<Rightarrow> thrown + jsval" where
  "get_prop JUndefined f = Inl TypeError_read"
| "get_prop JNull f = Inl TypeError_read"
| "get_prop v f = Inr (prop_value v f)"

record request =
  url :: string
  http_method :: string
  headers :: "(string \<times> string) list"

text \<open>A response: \<open>json\<close> is what awaiting \<open>response.json()\<close> gives, a value or a rejection.\<close>

record response =
  status :: nat
  statusText :: string
  json :: "thrown + jsval"

definition ok :: "response \<Rightarrow> bool" where
  "ok r = (200 \<le> status r \<and> status r \<le> 299)"

text \<open>
  What one run of a poll task meets: the two reads of \<open>env\<close> (a read can throw, and a
  variable can be unset) and the outcome of \<open>fetch\<close> for a request.
\<close>

record ambient =
  NEXT_PUBLIC_APP_URL :: "thrown + string option"
  CRON_SECRET :: "thrown + string option"
  fetch :: "request \<Rightarrow> thrown + response"

text \<open>What a run leaves behind: the log lines, the requests sent and the bodies read.\<close>

record trace =
  logged :: "log_entry list"
  requests :: "request list"
  body_reads :: nat

definition emit :: "level \<Rightarrow> part list \<Rightarrow> trace \<Rightarrow> trace" where
  "emit lvl msg tr = tr\<lparr>logged := logged tr @ [(lvl, msg)]\<rparr>"

text \<open>A string is falsy when it is undefined or empty.\<close>

definition falsy :: "string option \<Rightarrow> bool" where
  "falsy v = (case v of None \<Rightarrow> True | Some s \<Rightarrow> s = [])"

text \<open>\<open>v || d\<close> on strings.\<close>

definition or_else :: "string option \<Rightarrow> string \<Rightarrow> string" where
  "or_else v d = (case v of None \<Rightarrow> d | Some s \<Rightarrow> if s = [] then d else s)"

text \<open>A string, or undefined, inside a template literal.\<close>

definition text_of :: "string option \<Rightarrow> string" where
  "text_of v = (case v of None \<Rightarrow> ''undefined'' | Some s \<Rightarrow> s)"

definition bearer_get :: "string \<Rightarrow> string \<Rightarrow> request" where
  "bearer_get u secret =
     \<lparr>url = u, http_method = ''GET'', headers = [(''Authorization'', ''Bearer '' @ secret)]\<rparr>"

text \<open>
  The body of the \<open>try\<close> block of \<open>pollSchedules\<close>: \<open>Inl\<close> is a throw, \<open>Inr\<close> a
  return. The comparison and the template literal of the info line convert the count and
  can throw.
\<close>

definition pollSchedules_try :: "engine \<Rightarrow> ambient \<Rightarrow> trace \<Rightarrow> (thrown + unit) \<times> trace" where
  "pollSchedules_try E A tr0 =
     (case NEXT_PUBLIC_APP_URL A of
        Inl e \<Rightarrow> (Inl e, tr0)
      | Inr au \<Rightarrow>
          let appUrl = or_else au ''http://localhost:3000'' in
          case CRON_SECRET A of
            Inl e \<Rightarrow> (Inl e, tr0)
          | Inr cronSecret \<Rightarrow>
              if falsy cronSecret then
                (Inr (), emit Warn [Lit ''CRON_SECRET not configured - skipping schedule polling''] tr0)
              else
                let u = appUrl @ ''/api/schedules/execute'';
                    tr1 = emit Debug [Lit ''Polling schedules...''] tr0;
                    req = bearer_get u (text_of cronSecret);
                    tr2 = tr1\<lparr>requests := requests tr1 @ [req]\<rparr>
                in case fetch A req of
                     Inl e \<Rightarrow> (Inl e, tr2)
                   | Inr response \<Rightarrow>
                       if \<not> ok response then
                         (Inr (), emit Error [Lit ''Schedule polling failed: '', Code (status response),
                                             Lit '' '', Str (statusText response)] tr2)
                       else
                         let tr3 = tr2\<lparr>body_reads := Suc (body_reads tr2)\<rparr> in
                         case json response of
                           Inl e \<Rightarrow> (Inl e, tr3)
                         | Inr data \<Rightarrow>
                             (case get_prop data ExecutedCount of
                                Inl e \<Rightarrow> (Inl e, tr3)
                              | Inr c \<Rightarrow>
                                  (case gt_zero E c of
                                     Inl e \<Rightarrow> (Inl e, tr3)
                                   | Inr positive \<Rightarrow>
                                       if positive then
                                         (case get_prop data ExecutedCount of
                                            Inl e \<Rightarrow> (Inl e, tr3)
                                          | Inr c' \<Rightarrow>
                                              (case ToString E c' of
                                                 Inl e \<Rightarrow> (Inl e, tr3)
                                               | Inr s \<Rightarrow>
                                                   (Inr (), emit Info [Lit ''Schedule poll completed: '', Str s,
                                                                      Lit '' workflows executed''] tr3)))
                                       else
                                         (Inr (), emit Debug [Lit ''Schedule poll completed: no workflows due''] tr3))))"

text \<open>\<open>pollSchedules\<close>: the \<open>try\<close> block and its \<open>catch\<close>. The result is how the promise settles.\<close>

definition pollSchedules :: "engine \<Rightarrow> ambient \<Rightarrow> trace \<Rightarrow> (thrown + unit) \<times> trace" where
  "pollSchedules E A tr0 =
     (case pollSchedules_try E A tr0 of
        (Inl error, tr) \<Rightarrow> (Inr (), emit Error [Lit ''Error polling schedules:'', Caught error] tr)
      | (Inr u, tr) \<Rightarrow> (Inr u, tr))"

text \<open>
  The body of the \<open>try\<close> block of \<open>pollOutlook\<close>. The template literal of the info line
  reads and converts \<open>total\<close>, then \<open>successful\<close>.
\<close>

definition pollOutlook_try :: "engine \<Rightarrow> ambient \<Rightarrow> trace \<Rightarrow> (thrown + unit) \<times> trace" where
  "pollOutlook_try E A tr0 =
     (case NEXT_PUBLIC_APP_URL A of
        Inl e \<Rightarrow> (Inl e, tr0)
      | Inr au \<Rightarrow>
          let appUrl = or_else au ''http://localhost:3000'' in
          case CRON_SECRET A of
            Inl e \<Rightarrow> (Inl e, tr0)
          | Inr cronSecret \<Rightarrow>
              if falsy cronSecret then
                (Inr (), emit Warn [Lit ''CRON_SECRET not configured - skipping Outlook polling''] tr0)
              else
                let u = appUrl @ ''/api/webhooks/poll/outlook'';
                    tr1 = emit Debug [Lit ''Polling Outlook...''] tr0;
                    req = bearer_get u (text_of cronSecret);
                    tr2 = tr1\<lparr>requests := requests tr1 @ [req]\<rparr>
                in case fetch A req of
                     Inl e \<Rightarrow> (Inl e, tr2)
                   | Inr response \<Rightarrow>
                       if \<not> ok response then
                         (Inr (), emit Error [Lit ''Outlook polling failed: '', Code (status response),
                                             Lit '' '', Str (statusText response)] tr2)
                       else
                         let tr3 = tr2\<lparr>body_reads := Suc (body_reads tr2)\<rparr> in
                         case json response of
                           Inl e \<Rightarrow> (Inl e, tr3)
                         | Inr data \<Rightarrow>
                             (case get_prop data Total of
                                Inl e \<Rightarrow> (Inl e, tr3)
                              | Inr c \<Rightarrow>
                                  (case gt_zero E c of
                                     Inl e \<Rightarrow> (Inl e, tr3)
                                   | Inr positive \<Rightarrow>
                                       if positive then
                                         (case get_prop data Total of
                                            Inl e \<Rightarrow> (Inl e, tr3)
                                          | Inr t \<Rightarrow>
                                              (case ToString E t of
                                                 Inl e \<Rightarrow> (Inl e, tr3)
                                               | Inr ts \<Rightarrow>
                                                   (case get_prop data Successful of
                                                      Inl e \<Rightarrow> (Inl e, tr3)
                                                    | Inr s \<Rightarrow>
                                                        (case ToString E s of
                                                           Inl e \<Rightarrow> (Inl e, tr3)
                                                         | Inr ss \<Rightarrow>
                                                             (Inr (), emit Info [Lit ''Outlook poll completed: '', Str ts,
                                                                Lit '' webhooks checked, '', Str ss,
                                                                Lit '' successful''] tr3)))))
                                       else
                                         (Inr (), emit Debug [Lit ''Outlook poll completed: no active webhooks''] tr3))))"

definition pollOutlook :: "engine \<Rightarrow> ambient \<Rightarrow> trace \<Rightarrow> (thrown + unit) \<times> trace" where
  "pollOutlook E A tr0 =
     (case pollOutlook_try E A tr0 of
        (Inl error, tr) \<Rightarrow> (Inr (), emit Error [Lit ''Error polling Outlook:'', Caught error] tr)
      | (Inr u, tr) \<Rightarrow> (Inr u, tr))"

subsection \<open>Concrete runs\<close>

text \<open>A trace with nothing in it.\<close>

definition silent :: trace where
  "silent = \<lparr>logged = [], requests = [], body_reads = 0\<rparr>"

text \<open>
  A sample engine. It agrees with JavaScript on the text of NaN, of the infinities and of
  the integers (below \<open>10^21\<close> in size), and on the number that a string of decimal digits
  denotes (below \<open>2^53\<close>); it is applied to nothing else.
\<close>

function decimal :: "nat \<Rightarrow> string" where
  "decimal n =
     (if n < 10 then [''0123456789'' ! n] else decimal (n div 10) @ [''0123456789'' ! (n mod 10)])"
  by pat_completeness auto
termination
  by (relation "measure id") auto

declare decimal.simps [simp del]

definition is_digit :: "char \<Rightarrow> bool" where
  "is_digit c = (c \<in> set ''0123456789'')"

definition digit_value :: "char \<Rightarrow> nat" where
  "digit_value c = length (takeWhile (\<lambda>d. d \<noteq> c) ''0123456789'')"

definition sample_engine :: engine where
  "sample_engine =
     \<lparr>StringToNumber =
        (\<lambda>s. if list_all is_digit s
              then Fin (of_nat (foldl (\<lambda>a c. 10 * a + digit_value c) 0 s))
              else NaN),
      NumberToString =
        (\<lambda>n. case n of
                NaN \<Rightarrow> ''NaN''
              | NegInf \<Rightarrow> ''-Infinity''
              | PosInf \<Rightarrow> ''Infinity''
              | Fin q \<Rightarrow> (if q < 0 then ''-'' else []) @ decimal (nat \<lfloor>\<bar>q\<bar>\<rfloor>))\<rparr>"

text \<open>
  An ambient with no base URL set and a secret set, in which every request is answered
  with the given status, status text and outcome of reading the body.
\<close>

definition replying :: "nat \<Rightarrow> string \<Rightarrow> thrown + jsval \<Rightarrow> ambient" where
  "replying st txt body =
     \<lparr>NEXT_PUBLIC_APP_URL = Inr None, CRON_SECRET = Inr (Some ''s3cret''),
      fetch = (\<lambda>req. Inr \<lparr>status = st, statusText = txt, json = body\<rparr>)\<rparr>"

section \<open>Timers\<close>

datatype task = PollSchedules | PollOutlook

text \<open>A \<open>NodeJS.Timeout\<close> object; two of them are the same object when the ids agree.\<close>

datatype timeout = Timeout nat

datatype timer_kind = Recurring nat | OneShot

record timer =
  handle :: timeout
  kind :: timer_kind
  callback :: task
  due :: nat

text \<open>The class \<open>InternalPoller\<close>: its three private fields.\<close>

record internal_poller =
  scheduleIntervalId :: "timeout option"
  outlookIntervalId :: "timeout option"
  isRunning :: bool

text \<open>
  The process as the scheduler sees it: the singleton poller, the timer table of the event
  loop, the clock in milliseconds, what was written to the logger and to the console, and
  the callbacks the event loop has invoked so far (which task, at what time).
\<close>

record world =
  poller :: internal_poller
  timers :: "timer list"
  next_id :: nat
  now :: nat
  logger :: "log_entry list"
  console :: "string list"
  fired :: "(task \<times> nat) list"

definition console_log :: "string \<Rightarrow> world \<Rightarrow> world" where
  "console_log s w = w\<lparr>console := console w @ [s]\<rparr>"

definition logger_log :: "level \<Rightarrow> string \<Rightarrow> world \<Rightarrow> world" where
  "logger_log lvl s w = w\<lparr>logger := logger w @ [(lvl, [Lit s])]\<rparr>"

text \<open>Node replaces a delay outside \<open>1 .. 2^31 - 1\<close> by 1 millisecond.\<close>

definition clamp_delay :: "nat \<Rightarrow> nat" where
  "clamp_delay ms = (if 1 \<le> ms \<and> ms \<le> 2147483647 then ms else 1)"

definition setInterval :: "task \<Rightarrow> nat \<Rightarrow> world \<Rightarrow> timeout \<times> world" where
  "setInterval cb ms w =
     (let h = Timeout (next_id w);
          d = clamp_delay ms
      in (h, w\<lparr>timers := timers w @ [\<lparr>handle = h, kind = Recurring d, callback = cb, due = now w + d\<rparr>],
               next_id := Suc (next_id w)\<rparr>))"

definition setTimeout :: "task \<Rightarrow> nat \<Rightarrow> world \<Rightarrow> timeout \<times> world" where
  "setTimeout cb ms w =
     (let h = Timeout (next_id w);
          d = clamp_delay ms
      in (h, w\<lparr>timers := timers w @ [\<lparr>handle = h, kind = OneShot, callback = cb, due = now w + d\<rparr>],
               next_id := Suc (next_id w)\<rparr>))"

definition clearInterval :: "timeout \<Rightarrow> world \<Rightarrow> world" where
  "clearInterval h w = w\<lparr>timers := filter (\<lambda>tm. handle tm \<noteq> h) (timers w)\<rparr>"

section \<open>The poller's lifecycle\<close>

text \<open>The module's singleton: \<open>new InternalPoller()\<close> in a process that has armed no timer.\<close>

definition new_InternalPoller :: internal_poller where
  "new_InternalPoller = \<lparr>scheduleIntervalId = None, outlookIntervalId = None, isRunning = False\<rparr>"

definition initial :: world where
  "initial = \<lparr>poller = new_InternalPoller, timers = [], next_id = 1, now = 0,
              logger = [], console = [], fired = []\<rparr>"

definition start :: "world \<Rightarrow> world" where
  "start w0 =
     (let w1 = console_log ''[InternalPoller] start() called'' w0 in
      if isRunning (poller w1) then
        logger_log Warn ''Internal poller already running''
          (console_log ''[InternalPoller] Already running, skipping'' w1)
      else
        let w2 = console_log ''[InternalPoller] Starting internal polling service...'' w1;
            w3 = logger_log Info ''Starting internal polling service...'' w2;
            w4 = w3\<lparr>poller := (poller w3)\<lparr>isRunning := True\<rparr>\<rparr>;
            (h1, w5) = setInterval PollSchedules (60 * 1000) w4;
            w6 = w5\<lparr>poller := (poller w5)\<lparr>scheduleIntervalId := Some h1\<rparr>\<rparr>;
            (h2, w7) = setInterval PollOutlook (60 * 1000) w6;
            w8 = w7\<lparr>poller := (poller w7)\<lparr>outlookIntervalId := Some h2\<rparr>\<rparr>;
            (h3, w9) = setTimeout PollSchedules 5000 w8;
            (h4, w10) = setTimeout PollOutlook 10000 w9;
            w11 = console_log ''[InternalPoller] Service started successfully'' w10;
            w12 = logger_log Info ''Internal polling service started successfully'' w11;
            w13 = logger_log Info ''- Schedule polling: every 60 seconds'' w12;
            w14 = logger_log Info ''- Outlook polling: every 60 seconds'' w13
        in console_log ''[InternalPoller] Timers set: schedules in 5s, outlook in 10s'' w14)"

definition stop :: "world \<Rightarrow> world" where
  "stop w0 =
     (if \<not> isRunning (poller w0) then w0
      else
        let w1 = logger_log Info ''Stopping internal polling service...'' w0;
            w2 = (case scheduleIntervalId (poller w1) of
                    None \<Rightarrow> w1
                  | Some h \<Rightarrow>
                      let c = clearInterval h w1
                      in c\<lparr>poller := (poller c)\<lparr>scheduleIntervalId := None\<rparr>\<rparr>);
            w3 = (case outlookIntervalId (poller w2) of
                    None \<Rightarrow> w2
                  | Some h \<Rightarrow>
                      let c = clearInterval h w2
                      in c\<lparr>poller := (poller c)\<lparr>outlookIntervalId := None\<rparr>\<rparr>);
            w4 = w3\<lparr>poller := (poller w3)\<lparr>isRunning := False\<rparr>\<rparr>
        in logger_log Info ''Internal polling service stopped'' w4)"

section \<open>The event loop under simulated time\<close>

text \<open>The timer that is due first; of two that are due together, the one armed first.\<close>

fun earliest :: "timer list \<Rightarrow> timer option" where
  "earliest [] = None"
| "earliest (x # xs) =
     (case earliest xs of
        None \<Rightarrow> Some x
      | Some y \<Rightarrow> if due x \<le> due y then Some x else Some y)"

text \<open>
  Running one timer: the clock moves to its due time, its callback is invoked, and it is
  dropped when one-shot and armed again one period later when recurring.
\<close>

definition fire :: "timer \<Rightarrow> world \<Rightarrow> world" where
  "fire tm w =
     w\<lparr>now := max (now w) (due tm),
       fired := fired w @ [(callback tm, due tm)],
       timers :=
         (case kind tm of
            OneShot \<Rightarrow> filter (\<lambda>x. handle x \<noteq> handle tm) (timers w)
          | Recurring p \<Rightarrow>
              map (\<lambda>x. if handle x = handle tm then x\<lparr>due := due x + clamp_delay p\<rparr> else x)
                (timers w))\<rparr>"

definition pending :: "nat \<Rightarrow> world \<Rightarrow> timer list" where
  "pending t w = filter (\<lambda>tm. due tm \<le> t) (timers w)"

definition backlog :: "nat \<Rightarrow> timer list \<Rightarrow> nat" where
  "backlog t tms = sum_list (map (\<lambda>tm. Suc t - due tm) tms)"

text \<open>
  The loop below stops because every firing lowers the backlog: a one-shot timer leaves
  the table and a recurring timer moves at least one millisecond into the future.
\<close>

lemma earliest_mem: "earliest xs = Some x \<Longrightarrow> x \<in> set xs"
  by (induction xs arbitrary: x) (auto split: option.splits if_splits)

lemma pending_earliest:
  assumes "earliest (pending t w) = Some tm"
  shows "tm \<in> set (timers w) \<and> due tm \<le> t"
  using earliest_mem [OF assms] by (simp add: pending_def)

lemma clamp_delay_pos: "0 < clamp_delay p"
  by (simp add: clamp_delay_def)

lemma backlog_filter_le: "backlog t (filter P xs) \<le> backlog t xs"
  by (induction xs) (auto simp: backlog_def)

lemma backlog_drop_less:
  "x \<in> set xs \<Longrightarrow> due x \<le> t \<Longrightarrow>
   backlog t (filter (\<lambda>y. handle y \<noteq> handle x) xs) < backlog t xs"
proof (induction xs)
  case Nil
  then show ?case by simp
next
  case (Cons y ys)
  show ?case
  proof (cases "handle y = handle x")
    case True
    have "backlog t (filter (\<lambda>y. handle y \<noteq> handle x) ys) \<le> backlog t ys"
      by (rule backlog_filter_le)
    moreover have "due y \<le> t \<or> x \<in> set ys" using Cons.prems by auto
    ultimately show ?thesis
      using True Cons by (auto simp: backlog_def)
  next
    case False
    then have "x \<in> set ys" using Cons.prems by auto
    then show ?thesis using False Cons by (simp add: backlog_def)
  qed
qed

lemma backlog_rearm_le:
  "backlog t (map (\<lambda>y. if handle y = h then y\<lparr>due := due y + d\<rparr> else y) xs) \<le> backlog t xs"
  by (induction xs) (auto simp: backlog_def)

lemma backlog_rearm_less:
  "x \<in> set xs \<Longrightarrow> due x \<le> t \<Longrightarrow> 0 < d \<Longrightarrow>
   backlog t (map (\<lambda>y. if handle y = handle x then y\<lparr>due := due y + d\<rparr> else y) xs)
     < backlog t xs"
proof (induction xs)
  case Nil
  then show ?case by simp
next
  case (Cons y ys)
  have le: "backlog t (map (\<lambda>y. if handle y = handle x then y\<lparr>due := due y + d\<rparr> else y) ys)
      \<le> backlog t ys"
    by (rule backlog_rearm_le)
  show ?case
  proof (cases "x = y")
    case True
    then show ?thesis using le Cons.prems by (simp add: backlog_def)
  next
    case False
    then have "x \<in> set ys" using Cons.prems by auto
    then show ?thesis using Cons by (auto simp: backlog_def)
  qed
qed

lemma fire_backlog:
  assumes "earliest (pending t w) = Some tm"
  shows "backlog t (timers (fire tm w)) < backlog t (timers w)"
proof -
  from pending_earliest [OF assms] have m: "tm \<in> set (timers w)" and d: "due tm \<le> t"
    by auto
  show ?thesis
  proof (cases "kind tm")
    case (Recurring p)
    then show ?thesis
      using backlog_rearm_less [OF m d clamp_delay_pos] by (simp add: fire_def)
  next
    case OneShot
    then show ?thesis using backlog_drop_less [OF m d] by (simp add: fire_def)
  qed
qed

text \<open>
  Advancing the simulated clock to \<open>t\<close>: every timer due by \<open>t\<close> runs, in order of
  due time, and then the clock stands at \<open>t\<close>.
\<close>

function advance :: "nat \<Rightarrow> world \<Rightarrow> world" where
  "advance t w =
     (case earliest (pending t w) of
        None \<Rightarrow> w\<lparr>now := max (now w) t\<rparr>
      | Some tm \<Rightarrow> advance t (fire tm w))"
  by pat_completeness auto
termination
  by (relation "measure (\<lambda>(t, w). backlog t (timers w))") (auto simp: fire_backlog)

declare advance.simps [simp del]

text \<open>What a caller and the clock can do to the process, and a run of such events.\<close>

datatype event = Start | Stop | Elapse nat

fun step :: "world \<Rightarrow> event \<Rightarrow> world" where
  "step w Start = start w"
| "step w Stop = stop w"
| "step w (Elapse d) = advance (now w + d) w"

definition run :: "event list \<Rightarrow> world \<Rightarrow> world" where
  "run es w = foldl step w es"

text \<open>The recurring timers in the table, each with the task it runs and its period.\<close>

fun is_recurring :: "timer \<Rightarrow> bool" where
  "is_recurring tm = (case kind tm of Recurring p \<Rightarrow> True | OneShot \<Rightarrow> False)"

definition recurring :: "world \<Rightarrow> (timeout \<times> task \<times> timer_kind) list" where
  "recurring w = map (\<lambda>tm. (handle tm, callback tm, kind tm)) (filter is_recurring (timers w))"

definition recurring_for :: "task \<Rightarrow> world \<Rightarrow> timer list" where
  "recurring_for c w = filter (\<lambda>tm. is_recurring tm \<and> callback tm = c) (timers w)"

text \<open>What a call of \<open>start\<close> adds to the timer table: kind, task and delay of each new timer.\<close>

definition armed_by :: "world \<Rightarrow> world \<Rightarrow> (timer_kind \<times> task \<times> nat) list" where
  "armed_by w w' =
     map (\<lambda>tm. (kind tm, callback tm, due tm - now w)) (drop (length (timers w)) (timers w'))"

definition count_fired :: "task \<Rightarrow> world \<Rightarrow> nat" where
  "count_fired c w = length (filter (\<lambda>(c', t). c' = c) (fired w))"

text \<open>The invariant of the data model: a stopped poller holds no timer handle.\<close>

definition poller_inv :: "internal_poller \<Rightarrow> bool" where
  "poller_inv p = (\<not> isRunning p \<longrightarrow> scheduleIntervalId p = None \<and> outlookIntervalId p = None)"

text \<open>
  Handles are fresh: every timer of the table carries an id below the next one to be
  handed out, and no two timers share a handle.
\<close>

fun timer_id :: "timer \<Rightarrow> nat" where
  "timer_id tm = (case handle tm of Timeout k \<Rightarrow> k)"

definition table_ok :: "world \<Rightarrow> bool" where
  "table_ok w = ((\<forall>tm \<in> set (timers w). timer_id tm < next_id w) \<and> distinct (map handle (timers w)))"

text \<open>
  What every run keeps: a running poller holds the handles of the two recurring timers of
  the table, one per task and both with a period of 60 seconds, and a stopped poller holds
  none while the table has no recurring timer.
\<close>

definition coherent :: "world \<Rightarrow> bool" where
  "coherent w =
     (if isRunning (poller w) then
        (\<exists>h1 h2. scheduleIntervalId (poller w) = Some h1 \<and> outlookIntervalId (poller w) = Some h2 \<and>
           recurring w = [(h1, PollSchedules, Recurring 60000), (h2, PollOutlook, Recurring 60000)])
      else scheduleIntervalId (poller w) = None \<and> outlookIntervalId (poller w) = None \<and>
           recurring w = [])"

definition sound :: "world \<Rightarrow> bool" where
  "sound w = (table_ok w \<and> coherent w)"

section \<open>Facts about the lifecycle\<close>

lemma start_running:
  "isRunning (poller w) \<Longrightarrow>
   start w = w\<lparr>console := console w @ [''[InternalPoller] start() called'',
                                         ''[InternalPoller] Already running, skipping''],
               logger := logger w @ [(Warn, [Lit ''Internal poller already running''])]\<rparr>"
  by (simp add: start_def console_log_def logger_log_def)

lemma start_stopped_timers:
  "\<not> isRunning (poller w) \<Longrightarrow>
   timers (start w) = timers w @
     [\<lparr>handle = Timeout (next_id w), kind = Recurring 60000, callback = PollSchedules,
        due = now w + 60000\<rparr>,
      \<lparr>handle = Timeout (Suc (next_id w)), kind = Recurring 60000, callback = PollOutlook,
        due = now w + 60000\<rparr>,
      \<lparr>handle = Timeout (Suc (Suc (next_id w))), kind = OneShot, callback = PollSchedules,
        due = now w + 5000\<rparr>,
      \<lparr>handle = Timeout (Suc (Suc (Suc (next_id w)))), kind = OneShot, callback = PollOutlook,
        due = now w + 10000\<rparr>]"
  by (simp add: start_def console_log_def logger_log_def setInterval_def setTimeout_def
      clamp_delay_def Let_def)

lemma start_stopped_poller:
  "\<not> isRunning (poller w) \<Longrightarrow>
   poller (start w) = \<lparr>scheduleIntervalId = Some (Timeout (next_id w)),
                        outlookIntervalId = Some (Timeout (Suc (next_id w))),
                        isRunning = True\<rparr>"
  by (simp add: start_def console_log_def logger_log_def setInterval_def setTimeout_def
      clamp_delay_def Let_def)

lemma start_stopped_rest:
  "\<not> isRunning (poller w) \<Longrightarrow>
   now (start w) = now w \<and> fired (start w) = fired w \<and>
   next_id (start w) = Suc (Suc (Suc (Suc (next_id w))))"
  by (simp add: start_def console_log_def logger_log_def setInterval_def setTimeout_def
      clamp_delay_def Let_def)

lemma stop_stopped: "\<not> isRunning (poller w) \<Longrightarrow> stop w = w"
  by (simp add: stop_def)

lemma stop_poller:
  "isRunning (poller w) \<Longrightarrow>
   poller (stop w) = \<lparr>scheduleIntervalId = None, outlookIntervalId = None, isRunning = False\<rparr>"
  by (simp add: stop_def logger_log_def clearInterval_def Let_def split: option.splits)

lemma stop_timers:
  "isRunning (poller w) \<Longrightarrow>
   timers (stop w) =
     filter (\<lambda>tm. Some (handle tm) \<noteq> scheduleIntervalId (poller w) \<and>
                  Some (handle tm) \<noteq> outlookIntervalId (poller w)) (timers w)"
  by (auto simp add: stop_def logger_log_def clearInterval_def Let_def split: option.splits
      intro: filter_cong)

lemma stop_rest:
  "next_id (stop w) = next_id w \<and> now (stop w) = now w \<and> fired (stop w) = fired w"
  by (simp add: stop_def logger_log_def clearInterval_def Let_def split: option.splits)

lemma stop_not_running: "\<not> isRunning (poller (stop w))"
  by (cases "isRunning (poller w)") (simp_all add: stop_poller stop_stopped)

lemma fresh_handle:
  "\<forall>tm \<in> set xs. timer_id tm < n \<Longrightarrow> n \<le> m \<Longrightarrow> Timeout m \<notin> handle ` set xs"
proof
  assume "Timeout m \<in> handle ` set xs"
  then obtain x where x: "x \<in> set xs" and h: "handle x = Timeout m" by auto
  from h have "timer_id x = m" by simp
  moreover assume "\<forall>tm \<in> set xs. timer_id tm < n" "n \<le> m"
  ultimately show False using x by auto
qed

lemma table_ok_start: "table_ok w \<Longrightarrow> table_ok (start w)"
proof (cases "isRunning (poller w)")
  case True
  assume "table_ok w"
  then show ?thesis by (simp add: start_running [OF True] table_ok_def)
next
  case False
  assume ok: "table_ok w"
  then have old: "\<forall>tm \<in> set (timers w). timer_id tm < next_id w"
    and dist: "distinct (map handle (timers w))"
    by (simp_all add: table_ok_def)
  have ids: "\<forall>tm \<in> set (timers (start w)). timer_id tm < next_id (start w)"
    using old by (auto simp: start_stopped_timers [OF False] start_stopped_rest [OF False])
  have "distinct (map handle (timers (start w)))"
    using dist fresh_handle [OF old, of "next_id w"] fresh_handle [OF old, of "Suc (next_id w)"]
      fresh_handle [OF old, of "Suc (Suc (next_id w))"]
      fresh_handle [OF old, of "Suc (Suc (Suc (next_id w)))"]
    by (simp add: start_stopped_timers [OF False])
  with ids show ?thesis by (simp add: table_ok_def)
qed

lemma table_ok_stop: "table_ok w \<Longrightarrow> table_ok (stop w)"
proof (cases "isRunning (poller w)")
  case True
  assume "table_ok w"
  then show ?thesis
    by (simp add: stop_timers [OF True] stop_rest table_ok_def distinct_map_filter)
next
  case False
  assume "table_ok w"
  then show ?thesis by (simp add: stop_stopped [OF False])
qed

lemma rearm_handles:
  "map handle (map (\<lambda>x. if handle x = h then x\<lparr>due := due x + d\<rparr> else x) xs) = map handle xs"
  by (induction xs) auto

lemma table_ok_fire: "table_ok w \<Longrightarrow> table_ok (fire tm w)"
proof (cases "kind tm")
  case (Recurring p)
  assume "table_ok w"
  then show ?thesis using Recurring
    by (auto simp: table_ok_def fire_def rearm_handles simp del: map_map)
next
  case OneShot
  assume "table_ok w"
  then show ?thesis using OneShot
    by (simp add: table_ok_def fire_def distinct_map_filter)
qed

lemma recurring_start:
  "\<not> isRunning (poller w) \<Longrightarrow>
   recurring (start w) = recurring w @
     [(Timeout (next_id w), PollSchedules, Recurring 60000),
      (Timeout (Suc (next_id w)), PollOutlook, Recurring 60000)]"
  by (simp add: recurring_def start_stopped_timers)

lemma recurring_filter:
  "map (\<lambda>tm. (handle tm, callback tm, kind tm)) (filter is_recurring (filter (\<lambda>tm. Q (handle tm)) xs)) =
   filter (\<lambda>(h, c, k). Q h) (map (\<lambda>tm. (handle tm, callback tm, kind tm)) (filter is_recurring xs))"
  by (induction xs) auto

lemma recurring_stop:
  "isRunning (poller w) \<Longrightarrow>
   recurring (stop w) =
     filter (\<lambda>(h, c, k). Some h \<noteq> scheduleIntervalId (poller w) \<and>
                         Some h \<noteq> outlookIntervalId (poller w)) (recurring w)"
  unfolding recurring_def stop_timers
  by (rule recurring_filter)

lemma inj_handle: "distinct (map handle xs) \<Longrightarrow> x \<in> set xs \<Longrightarrow> y \<in> set xs \<Longrightarrow>
    handle x = handle y \<Longrightarrow> x = y"
  by (meson distinct_map inj_onD)

lemma recurring_fire:
  assumes "table_ok w" "tm \<in> set (timers w)"
  shows "recurring (fire tm w) = recurring w"
proof (cases "kind tm")
  case (Recurring p)
  have "map (\<lambda>tm. (handle tm, callback tm, kind tm))
          (filter is_recurring (map (\<lambda>x. if handle x = h then x\<lparr>due := due x + d\<rparr> else x) xs)) =
        map (\<lambda>tm. (handle tm, callback tm, kind tm)) (filter is_recurring xs)" for h d xs
    by (induction xs) auto
  then show ?thesis using Recurring by (simp add: recurring_def fire_def)
next
  case OneShot
  have "filter is_recurring (filter (\<lambda>x. handle x \<noteq> handle tm) (timers w)) =
        filter is_recurring (timers w)"
    unfolding filter_filter
  proof (rule filter_cong [OF refl])
    fix x assume x: "x \<in> set (timers w)"
    have "is_recurring x \<Longrightarrow> handle x \<noteq> handle tm"
      using inj_handle [OF _ x assms(2)] assms(1) OneShot by (auto simp: table_ok_def)
    then show "(handle x \<noteq> handle tm \<and> is_recurring x) = is_recurring x" by blast
  qed
  then show ?thesis using OneShot by (simp add: recurring_def fire_def)
qed

lemma fire_poller: "poller (fire tm w) = poller w"
  by (simp add: fire_def)

lemma coherent_cong:
  "poller w' = poller w \<Longrightarrow> recurring w' = recurring w \<Longrightarrow> coherent w' = coherent w"
  by (simp add: coherent_def)

lemma coherent_start: "coherent w \<Longrightarrow> coherent (start w)"
proof (cases "isRunning (poller w)")
  case True
  assume "coherent w"
  then show ?thesis using True by (simp add: start_running [OF True] coherent_def recurring_def)
next
  case False
  assume "coherent w"
  then show ?thesis using False
    by (simp add: coherent_def recurring_start [OF False] start_stopped_poller [OF False])
qed

lemma coherent_stop: "coherent w \<Longrightarrow> coherent (stop w)"
proof (cases "isRunning (poller w)")
  case True
  assume "coherent w"
  then have "recurring (stop w) = []"
    using True by (auto simp: coherent_def recurring_stop [OF True])
  then show ?thesis by (simp add: coherent_def stop_poller [OF True])
next
  case False
  assume "coherent w"
  then show ?thesis by (simp add: stop_stopped [OF False])
qed

lemma coherent_fire:
  assumes "table_ok w" "tm \<in> set (timers w)" "coherent w"
  shows "coherent (fire tm w)"
  using assms(3) coherent_cong [OF fire_poller recurring_fire [OF assms(1,2)]] by simp


lemma sound_advance: "sound w \<Longrightarrow> sound (advance t w)"
proof (induction t w rule: advance.induct)
  case (1 t w)
  show ?case
  proof (cases "earliest (pending t w)")
    case None
    have "recurring (w\<lparr>now := max (now w) t\<rparr>) = recurring w" by (simp add: recurring_def)
    then have "coherent (w\<lparr>now := max (now w) t\<rparr>) = coherent w"
      by (intro coherent_cong) simp_all
    moreover have "table_ok (w\<lparr>now := max (now w) t\<rparr>) = table_ok w"
      by (simp add: table_ok_def)
    ultimately show ?thesis using None "1.prems"
      by (simp add: advance.simps [of t w] sound_def)
  next
    case (Some tm)
    from pending_earliest [OF Some] have m: "tm \<in> set (timers w)" by simp
    have "sound (fire tm w)"
      using "1.prems" m by (simp add: sound_def table_ok_fire coherent_fire)
    from "1.IH" [OF Some this] show ?thesis using Some by (simp add: advance.simps [of t w])
  qed
qed

lemma sound_step: "sound w \<Longrightarrow> sound (step w e)"
  by (cases e) (simp_all add: sound_advance, simp_all add: sound_def table_ok_start table_ok_stop coherent_start coherent_stop)

lemma sound_run: "sound w \<Longrightarrow> sound (run es w)"
  unfolding run_def by (induction es arbitrary: w) (simp_all add: sound_step)

lemma sound_initial: "sound initial"
  by (simp add: sound_def table_ok_def coherent_def initial_def new_InternalPoller_def recurring_def)

section \<open>The scheduler's properties\<close>

lemma start_is_running: "isRunning (poller (start w))"
  by (cases "isRunning (poller w)") (simp_all add: start_running start_stopped_poller)

lemma sound_starts: "sound w \<Longrightarrow> sound ((start ^^ k) w)"
  by (induction k) (simp_all add: sound_def table_ok_start coherent_start)

lemma one_recurring_timer:
  assumes "coherent w" "isRunning (poller w)"
  shows "map kind (recurring_for c w) = [Recurring 60000]"
proof -
  from assms obtain h1 h2 where
    r: "recurring w = [(h1, PollSchedules, Recurring 60000), (h2, PollOutlook, Recurring 60000)]"
    by (auto simp: coherent_def)
  then obtain t1 t2 where ts: "filter is_recurring (timers w) = [t1, t2]"
    and t1: "callback t1 = PollSchedules" "kind t1 = Recurring 60000"
    and t2: "callback t2 = PollOutlook" "kind t2 = Recurring 60000"
    by (auto simp: recurring_def map_eq_Cons_conv)
  have "recurring_for c w = filter (\<lambda>tm. callback tm = c) (filter is_recurring (timers w))"
    by (simp add: recurring_for_def conj_commute)
  then show ?thesis using ts t1 t2 by (cases c) simp_all
qed

text \<open>
  Claim C1. In every state in which the poller is running, \<open>start\<close> changes neither the
  poller's fields nor the timer table, the clock or the record of fired callbacks, and it
  logs one warning. Hence, from any state that a run of start, stop and elapsing time
  reaches, calling \<open>start\<close> once or more leaves exactly one recurring timer per task in
  the table, with the period of 60 seconds.
\<close>

theorem start_idempotent:
  "(isRunning (poller w) \<longrightarrow>
      poller (start w) = poller w \<and> timers (start w) = timers w \<and>
      next_id (start w) = next_id w \<and> now (start w) = now w \<and> fired (start w) = fired w \<and>
      logger (start w) = logger w @ [(Warn, [Lit ''Internal poller already running''])]) \<and>
   map kind (recurring_for PollSchedules ((start ^^ Suc k) (run es initial))) = [Recurring 60000] \<and>
   map kind (recurring_for PollOutlook ((start ^^ Suc k) (run es initial))) = [Recurring 60000]"
proof -
  have noop: "isRunning (poller w) \<longrightarrow>
      poller (start w) = poller w \<and> timers (start w) = timers w \<and>
      next_id (start w) = next_id w \<and> now (start w) = now w \<and> fired (start w) = fired w \<and>
      logger (start w) = logger w @ [(Warn, [Lit ''Internal poller already running''])]"
    by (simp add: start_running)
  let ?v = "(start ^^ Suc k) (run es initial)"
  have "sound ?v" by (intro sound_starts sound_run sound_initial)
  then have c: "coherent ?v" by (simp add: sound_def)
  have r: "isRunning (poller ?v)" by (simp add: start_is_running)
  from noop one_recurring_timer [OF c r] show ?thesis by blast
qed

theorem start_idempotent_witness:
  "isRunning (poller (start initial)) \<and>
   timers (start (start initial)) = timers (start initial) \<and>
   logger (start (start initial)) =
     logger (start initial) @ [(Warn, [Lit ''Internal poller already running''])] \<and>
   map kind (recurring_for PollSchedules (start (start (start initial)))) = [Recurring 60000] \<and>
   map kind (recurring_for PollOutlook (start (start (start initial)))) = [Recurring 60000]"
  using start_idempotent [of "start initial" 2 "[]"]
  by (simp add: start_is_running run_def numeral_2_eq_2)

lemma poller_advance: "poller (advance t w) = poller w"
proof (induction t w rule: advance.induct)
  case (1 t w)
  then show ?case
    by (cases "earliest (pending t w)") (simp_all add: advance.simps [of t w] fire_poller)
qed

lemma poller_inv_start: "poller_inv (poller (start w))"
  using start_is_running [of w] by (simp add: poller_inv_def)

lemma poller_inv_stop: "poller_inv (poller w) \<Longrightarrow> poller_inv (poller (stop w))"
proof (cases "isRunning (poller w)")
  case True
  then show ?thesis by (simp add: stop_poller poller_inv_def)
next
  case False
  assume "poller_inv (poller w)"
  then show ?thesis by (simp add: stop_stopped [OF False])
qed

lemma poller_inv_step: "poller_inv (poller w) \<Longrightarrow> poller_inv (poller (step w e))"
  by (cases e) (simp_all add: poller_inv_start poller_inv_stop poller_advance)

lemma poller_inv_run: "poller_inv (poller w) \<Longrightarrow> poller_inv (poller (run es w))"
  unfolding run_def by (induction es arbitrary: w) (simp_all add: poller_inv_step)

text \<open>
  Claim C3. The invariant that a stopped poller holds no timer handle is true of the initial
  state, both \<open>start\<close> and \<open>stop\<close> preserve it, and so it holds after every sequence
  of calls (with time elapsing anywhere in between).
\<close>

theorem poller_invariant:
  "poller_inv (poller initial) \<and>
   (poller_inv (poller w) \<longrightarrow> poller_inv (poller (start w)) \<and> poller_inv (poller (stop w))) \<and>
   poller_inv (poller (run es initial))"
proof -
  have i: "poller_inv (poller initial)"
    by (simp add: poller_inv_def initial_def new_InternalPoller_def)
  from i poller_inv_run [OF i] show ?thesis
    by (simp add: poller_inv_start poller_inv_stop)
qed

theorem poller_invariant_witness:
  "poller_inv (poller (start initial)) \<and>
   poller_inv (poller (stop (start initial))) \<and>
   \<not> isRunning (poller (stop (start initial))) \<and>
   scheduleIntervalId (poller (stop (start initial))) = None \<and>
   outlookIntervalId (poller (stop (start initial))) = None \<and>
   poller_inv (poller (run [Start, Stop, Stop, Start, Start, Stop] initial))"
  using poller_invariant [of "start initial" "[Start, Stop, Stop, Start, Start, Stop]"]
    poller_invariant [of initial "[]"]
  by (simp add: stop_poller start_is_running)


lemma stop_stop: "stop (stop w) = stop w"
  by (rule stop_stopped) (rule stop_not_running)

lemma recurring_handles:
  assumes "(h, c, k) \<in> set (recurring w)"
  shows "\<exists>tm \<in> set (timers w). is_recurring tm \<and> handle tm = h"
  using assms by (auto simp: recurring_def)

lemma stop_keeps_one_shots:
  assumes "sound w" "isRunning (poller w)"
  shows "filter (\<lambda>tm. \<not> is_recurring tm) (timers (stop w)) =
         filter (\<lambda>tm. \<not> is_recurring tm) (timers w)"
proof -
  from assms obtain h1 h2 where
    s: "scheduleIntervalId (poller w) = Some h1" and
    ou: "outlookIntervalId (poller w) = Some h2" and
    r: "recurring w = [(h1, PollSchedules, Recurring 60000), (h2, PollOutlook, Recurring 60000)]"
    by (auto simp: sound_def coherent_def)
  from assms have d: "distinct (map handle (timers w))" by (simp add: sound_def table_ok_def)
  obtain t1 where t1: "t1 \<in> set (timers w)" "is_recurring t1" "handle t1 = h1"
    using recurring_handles [of h1 PollSchedules "Recurring 60000" w] r by auto
  obtain t2 where t2: "t2 \<in> set (timers w)" "is_recurring t2" "handle t2 = h2"
    using recurring_handles [of h2 PollOutlook "Recurring 60000" w] r by auto
  show ?thesis
    unfolding stop_timers [OF assms(2)] filter_filter s ou
  proof (rule filter_cong [OF refl])
    fix x assume x: "x \<in> set (timers w)"
    have "\<not> is_recurring x \<Longrightarrow> handle x \<noteq> h1"
      using inj_handle [OF d x t1(1)] t1 by auto
    moreover have "\<not> is_recurring x \<Longrightarrow> handle x \<noteq> h2"
      using inj_handle [OF d x t2(1)] t2 by auto
    ultimately show "((Some (handle x) \<noteq> Some h1 \<and> Some (handle x) \<noteq> Some h2) \<and> \<not> is_recurring x) =
        (\<not> is_recurring x)" by auto
  qed
qed

lemma stop_clears_recurring:
  assumes "sound w" "isRunning (poller w)"
  shows "recurring (stop w) = []"
  using assms by (auto simp: sound_def coherent_def recurring_stop)

text \<open>
  Claim C8. \<open>stop\<close> on a stopped poller returns the state unchanged, and stopping twice is
  the same as stopping once. On a running poller it clears both handles, sets the flag to
  false and leaves no timer in the table that either handle referred to; in every reachable
  running state this removes all recurring timers and nothing else.
\<close>

theorem stop_idempotent_total:
  "(\<not> isRunning (poller w) \<longrightarrow> stop w = w) \<and>
   stop (stop w) = stop w \<and>
   (isRunning (poller w) \<longrightarrow>
      poller (stop w) = \<lparr>scheduleIntervalId = None, outlookIntervalId = None, isRunning = False\<rparr> \<and>
      (\<forall>tm \<in> set (timers (stop w)).
         Some (handle tm) \<noteq> scheduleIntervalId (poller w) \<and>
         Some (handle tm) \<noteq> outlookIntervalId (poller w))) \<and>
   (isRunning (poller (run es initial)) \<longrightarrow>
      recurring (stop (run es initial)) = [] \<and>
      filter (\<lambda>tm. \<not> is_recurring tm) (timers (stop (run es initial))) =
        filter (\<lambda>tm. \<not> is_recurring tm) (timers (run es initial)))"
proof -
  have s: "sound (run es initial)" by (intro sound_run sound_initial)
  have a: "\<not> isRunning (poller w) \<longrightarrow> stop w = w" by (simp add: stop_stopped)
  have b: "isRunning (poller w) \<longrightarrow>
      poller (stop w) = \<lparr>scheduleIntervalId = None, outlookIntervalId = None, isRunning = False\<rparr> \<and>
      (\<forall>tm \<in> set (timers (stop w)).
         Some (handle tm) \<noteq> scheduleIntervalId (poller w) \<and>
         Some (handle tm) \<noteq> outlookIntervalId (poller w))"
    by (simp add: stop_poller stop_timers)
  from a b stop_stop [of w] stop_clears_recurring [OF s] stop_keeps_one_shots [OF s]
  show ?thesis by blast
qed

theorem stop_idempotent_total_witness:
  "\<not> isRunning (poller initial) \<and> stop initial = initial \<and>
   isRunning (poller (start initial)) \<and>
   poller (stop (start initial)) =
     \<lparr>scheduleIntervalId = None, outlookIntervalId = None, isRunning = False\<rparr> \<and>
   stop (stop (start initial)) = stop (start initial) \<and>
   isRunning (poller (run [Start, Elapse 7000] initial)) \<and>
   recurring (stop (run [Start, Elapse 7000] initial)) = []"
  using stop_idempotent_total [of initial "[Start, Elapse 7000]"]
    stop_idempotent_total [of "start initial" "[]"]
  by (simp add: start_is_running run_def poller_advance initial_def new_InternalPoller_def)

lemma armed_by_start:
  assumes "\<not> isRunning (poller w)"
  shows "armed_by w (start w) =
    [(Recurring 60000, PollSchedules, 60000), (Recurring 60000, PollOutlook, 60000),
     (OneShot, PollSchedules, 5000), (OneShot, PollOutlook, 10000)]"
  by (simp add: armed_by_def start_stopped_timers [OF assms])

text \<open>
  Claim C9. After \<open>stop\<close> on a running poller the poller is stopped, and a following
  \<open>start\<close> is not a no-op: the poller is running again with two fresh handles, the
  timers that were in the table are kept, and the four timers added are those a first
  \<open>start\<close> from the initial state adds.
\<close>

theorem restartable:
  assumes "isRunning (poller w)"
  shows "\<not> isRunning (poller (stop w)) \<and>
         isRunning (poller (start (stop w))) \<and>
         start (stop w) \<noteq> stop w \<and>
         scheduleIntervalId (poller (start (stop w))) = Some (Timeout (next_id w)) \<and>
         outlookIntervalId (poller (start (stop w))) = Some (Timeout (Suc (next_id w))) \<and>
         take (length (timers (stop w))) (timers (start (stop w))) = timers (stop w) \<and>
         armed_by (stop w) (start (stop w)) =
           [(Recurring 60000, PollSchedules, 60000), (Recurring 60000, PollOutlook, 60000),
            (OneShot, PollSchedules, 5000), (OneShot, PollOutlook, 10000)] \<and>
         armed_by (stop w) (start (stop w)) = armed_by initial (start initial)"
proof -
  have n: "\<not> isRunning (poller (stop w))" by (rule stop_not_running)
  have i: "\<not> isRunning (poller initial)" by (simp add: initial_def new_InternalPoller_def)
  have r: "isRunning (poller (start (stop w)))" by (rule start_is_running)
  from n r have "start (stop w) \<noteq> stop w" by auto
  then show ?thesis
    using n r by (simp add: armed_by_start [OF n] armed_by_start [OF i]
        start_stopped_poller [OF n] start_stopped_timers [OF n] stop_rest)
qed

theorem restartable_witness:
  "isRunning (poller (start initial)) \<and>
   \<not> isRunning (poller (stop (start initial))) \<and>
   isRunning (poller (start (stop (start initial)))) \<and>
   scheduleIntervalId (poller (start (stop (start initial)))) = Some (Timeout 5) \<and>
   armed_by (stop (start initial)) (start (stop (start initial))) =
     [(Recurring 60000, PollSchedules, 60000), (Recurring 60000, PollOutlook, 60000),
      (OneShot, PollSchedules, 5000), (OneShot, PollOutlook, 10000)]"
  using restartable [OF start_is_running [of initial]]
  by (simp add: start_is_running start_stopped_rest initial_def new_InternalPoller_def)


lemma count_fired_append:
  "fired w' = fired w @ xs \<Longrightarrow>
   count_fired c w' = count_fired c w + length (filter (\<lambda>(c', t). c' = c) xs)"
  by (simp add: count_fired_def)

text \<open>
  Claim C4, amended. When \<open>start\<close> is called on a stopped poller and no timer is pending,
  it arms a recurring 60-second timer and a one-shot 5-second timer for the Schedule task,
  and a recurring 60-second timer and a one-shot 10-second timer for the Outlook task.
  Nothing fires before 5 seconds; at 5 seconds the Schedule task has fired once; at 10
  seconds the Outlook task has fired once and the Schedule task still once; at 120 seconds
  each task has fired three times.
\<close>

theorem staggered_startup:
  assumes "\<not> isRunning (poller w)" and "timers w = []"
  shows "armed_by w (start w) =
           [(Recurring 60000, PollSchedules, 60000), (Recurring 60000, PollOutlook, 60000),
            (OneShot, PollSchedules, 5000), (OneShot, PollOutlook, 10000)] \<and>
         fired (advance (now w + 4999) (start w)) = fired w \<and>
         fired (advance (now w + 5000) (start w)) = fired w @ [(PollSchedules, now w + 5000)] \<and>
         fired (advance (now w + 10000) (start w)) =
           fired w @ [(PollSchedules, now w + 5000), (PollOutlook, now w + 10000)] \<and>
         fired (advance (now w + 120000) (start w)) =
           fired w @ [(PollSchedules, now w + 5000), (PollOutlook, now w + 10000),
                      (PollSchedules, now w + 60000), (PollOutlook, now w + 60000),
                      (PollSchedules, now w + 120000), (PollOutlook, now w + 120000)] \<and>
         count_fired PollSchedules (advance (now w + 120000) (start w)) =
           count_fired PollSchedules w + 3 \<and>
         count_fired PollOutlook (advance (now w + 120000) (start w)) =
           count_fired PollOutlook w + 3"
proof -
  note ev = advance.simps pending_def fire_def start_stopped_timers start_stopped_rest
    clamp_delay_def
  have t0: "fired (advance (now w + 4999) (start w)) = fired w"
    using assms by (simp add: ev)
  have t5: "fired (advance (now w + 5000) (start w)) = fired w @ [(PollSchedules, now w + 5000)]"
    using assms by (simp add: ev)
  have t10: "fired (advance (now w + 10000) (start w)) =
      fired w @ [(PollSchedules, now w + 5000), (PollOutlook, now w + 10000)]"
    using assms by (simp add: ev)
  have t120: "fired (advance (now w + 120000) (start w)) =
      fired w @ [(PollSchedules, now w + 5000), (PollOutlook, now w + 10000),
                 (PollSchedules, now w + 60000), (PollOutlook, now w + 60000),
                 (PollSchedules, now w + 120000), (PollOutlook, now w + 120000)]"
    using assms by (simp add: ev)
  have c1: "count_fired PollSchedules (advance (now w + 120000) (start w)) =
      count_fired PollSchedules w + 3"
    by (simp add: count_fired_append [OF t120])
  have c2: "count_fired PollOutlook (advance (now w + 120000) (start w)) =
      count_fired PollOutlook w + 3"
    by (simp add: count_fired_append [OF t120])
  from armed_by_start [OF assms(1)] t0 t5 t10 t120 c1 c2 show ?thesis by simp
qed

theorem staggered_startup_witness:
  "\<not> isRunning (poller initial) \<and> timers initial = [] \<and>
   fired (advance 5000 (start initial)) = [(PollSchedules, 5000)] \<and>
   fired (advance 10000 (start initial)) = [(PollSchedules, 5000), (PollOutlook, 10000)] \<and>
   count_fired PollSchedules (advance 120000 (start initial)) = 3 \<and>
   count_fired PollOutlook (advance 120000 (start initial)) = 3"
proof -
  have a: "\<not> isRunning (poller initial)" and b: "timers initial = []"
    and c: "now initial = 0" and d: "fired initial = []"
    by (simp_all add: initial_def new_InternalPoller_def)
  from staggered_startup [OF a b] show ?thesis
    using a b by (simp add: c d count_fired_def)
qed

text \<open>
  As stated for every stopped state, claim C4 fails: \<open>stop\<close> does not cancel the one-shot
  timers, so after start, stop and start in the same instant two one-shot timers of the
  Schedule task are pending, and 5 seconds later the task has fired twice.
\<close>

theorem staggered_startup_counterexample:
  "\<not> isRunning (poller (stop (start initial))) \<and>
   now (stop (start initial)) = 0 \<and>
   fired (stop (start initial)) = [] \<and>
   fired (advance 5000 (start (stop (start initial)))) =
     [(PollSchedules, 5000), (PollSchedules, 5000)] \<and>
   count_fired PollSchedules (advance 5000 (start (stop (start initial)))) = 2"
  by (simp add: advance.simps pending_def fire_def clamp_delay_def count_fired_def
      start_def stop_def initial_def new_InternalPoller_def console_log_def logger_log_def
      setInterval_def setTimeout_def clearInterval_def Let_def)

section \<open>Facts about the poll tasks\<close>

lemma get_prop_defined:
  "data \<noteq> JNull \<Longrightarrow> data \<noteq> JUndefined \<Longrightarrow> get_prop data f = Inr (prop_value data f)"
  by (cases data) simp_all

lemma conversion:
  "(convertible v \<longrightarrow> (\<exists>s. ToString E v = Inr s)) \<and>
   (\<not> convertible v \<longrightarrow> ToString E v = Inl TypeError_convert)"
  "(list_all convertible vs \<longrightarrow> (\<exists>ss. ToStrings E vs = Inr ss)) \<and>
   (\<not> list_all convertible vs \<longrightarrow> ToStrings E vs = Inl TypeError_convert)"
proof (induction E v and E vs rule: ToString_ToStrings.induct)
  case (8 E)
  then show ?case by simp
next
  case (9 E x xs)
  then show ?case by (cases x) (auto split: sum.splits)
qed (auto split: sum.splits)

lemma ToString_returns: "convertible v \<Longrightarrow> \<exists>s. ToString E v = Inr s"
  using conversion(1) [of v E] by blast

lemma ToString_throws: "\<not> convertible v \<Longrightarrow> ToString E v = Inl TypeError_convert"
  using conversion(1) [of v E] by blast

lemma gt_zero_returns: "convertible v \<Longrightarrow> \<exists>b. gt_zero E v = Inr b"
  using ToString_returns [of v E] by (cases v) (auto simp: gt_zero_def)

lemma gt_zero_throws: "\<not> convertible v \<Longrightarrow> gt_zero E v = Inl TypeError_convert"
  using ToString_throws [of v E] by (cases v) (auto simp: gt_zero_def)

lemma gt_zero_convertible: "gt_zero E v = Inr b \<Longrightarrow> convertible v"
  using gt_zero_throws [of v E] by auto

lemma pollSchedules_settles: "fst (pollSchedules E A tr) = Inr ()"
  by (simp add: pollSchedules_def split: prod.splits sum.splits)

lemma pollOutlook_settles: "fst (pollOutlook E A tr) = Inr ()"
  by (simp add: pollOutlook_def split: prod.splits sum.splits)

lemma pollSchedules_skip:
  assumes "NEXT_PUBLIC_APP_URL A = Inr au" "CRON_SECRET A = Inr cs" "falsy cs"
  shows "pollSchedules E A tr =
    (Inr (), tr\<lparr>logged := logged tr @
       [(Warn, [Lit ''CRON_SECRET not configured - skipping schedule polling''])]\<rparr>)"
  using assms by (simp add: pollSchedules_def pollSchedules_try_def emit_def)

lemma pollOutlook_skip:
  assumes "NEXT_PUBLIC_APP_URL A = Inr au" "CRON_SECRET A = Inr cs" "falsy cs"
  shows "pollOutlook E A tr =
    (Inr (), tr\<lparr>logged := logged tr @
       [(Warn, [Lit ''CRON_SECRET not configured - skipping Outlook polling''])]\<rparr>)"
  using assms by (simp add: pollOutlook_def pollOutlook_try_def emit_def)

lemma pollSchedules_rejected:
  assumes "NEXT_PUBLIC_APP_URL A = Inr au" "CRON_SECRET A = Inr cs" "\<not> falsy cs"
    "fetch A (bearer_get (or_else au ''http://localhost:3000'' @ ''/api/schedules/execute'')
       (text_of cs)) = Inr r"
    "\<not> ok r"
  shows "pollSchedules E A tr =
    (Inr (), tr\<lparr>logged := logged tr @
        [(Debug, [Lit ''Polling schedules...'']),
         (Error, [Lit ''Schedule polling failed: '', Code (status r), Lit '' '', Str (statusText r)])],
       requests := requests tr @
        [bearer_get (or_else au ''http://localhost:3000'' @ ''/api/schedules/execute'') (text_of cs)]\<rparr>)"
  using assms by (simp add: pollSchedules_def pollSchedules_try_def emit_def Let_def)

lemma pollOutlook_rejected:
  assumes "NEXT_PUBLIC_APP_URL A = Inr au" "CRON_SECRET A = Inr cs" "\<not> falsy cs"
    "fetch A (bearer_get (or_else au ''http://localhost:3000'' @ ''/api/webhooks/poll/outlook'')
       (text_of cs)) = Inr r"
    "\<not> ok r"
  shows "pollOutlook E A tr =
    (Inr (), tr\<lparr>logged := logged tr @
        [(Debug, [Lit ''Polling Outlook...'']),
         (Error, [Lit ''Outlook polling failed: '', Code (status r), Lit '' '', Str (statusText r)])],
       requests := requests tr @
        [bearer_get (or_else au ''http://localhost:3000'' @ ''/api/webhooks/poll/outlook'') (text_of cs)]\<rparr>)"
  using assms by (simp add: pollOutlook_def pollOutlook_try_def emit_def Let_def)

lemma pollSchedules_url_throws:
  assumes "NEXT_PUBLIC_APP_URL A = Inl x"
  shows "pollSchedules E A tr =
    (Inr (), tr\<lparr>logged := logged tr @
        [(Error, [Lit ''Error polling schedules:'', Caught x])]\<rparr>)"
  using assms by (auto simp add: pollSchedules_def pollSchedules_try_def emit_def Let_def)

lemma pollSchedules_secret_throws:
  assumes "NEXT_PUBLIC_APP_URL A = Inr au"
    "CRON_SECRET A = Inl x"
  shows "pollSchedules E A tr =
    (Inr (), tr\<lparr>logged := logged tr @
        [(Error, [Lit ''Error polling schedules:'', Caught x])]\<rparr>)"
  using assms by (auto simp add: pollSchedules_def pollSchedules_try_def emit_def Let_def)

lemma pollSchedules_fetch_throws:
  assumes "NEXT_PUBLIC_APP_URL A = Inr au" "CRON_SECRET A = Inr cs" "\<not> falsy cs"
    "fetch A
       (bearer_get (or_else au ''http://localhost:3000'' @ ''/api/schedules/execute'') (text_of cs)) = Inl x"
  shows "pollSchedules E A tr =
    (Inr (), tr\<lparr>logged := logged tr @
        [(Debug, [Lit ''Polling schedules...'']),
         (Error, [Lit ''Error polling schedules:'', Caught x])],
       requests := requests tr @
        [bearer_get (or_else au ''http://localhost:3000'' @ ''/api/schedules/execute'') (text_of cs)]\<rparr>)"
  using assms by (auto simp add: pollSchedules_def pollSchedules_try_def emit_def Let_def)

lemma pollSchedules_json_throws:
  assumes "NEXT_PUBLIC_APP_URL A = Inr au" "CRON_SECRET A = Inr cs" "\<not> falsy cs"
    "fetch A
       (bearer_get (or_else au ''http://localhost:3000'' @ ''/api/schedules/execute'') (text_of cs)) = Inr r"
    "ok r"
    "json r = Inl x"
  shows "pollSchedules E A tr =
    (Inr (), tr\<lparr>logged := logged tr @
        [(Debug, [Lit ''Polling schedules...'']),
         (Error, [Lit ''Error polling schedules:'', Caught x])],
       requests := requests tr @
        [bearer_get (or_else au ''http://localhost:3000'' @ ''/api/schedules/execute'') (text_of cs)],
       body_reads := Suc (body_reads tr)\<rparr>)"
  using assms by (auto simp add: pollSchedules_def pollSchedules_try_def emit_def Let_def)

lemma pollSchedules_null_body:
  assumes "NEXT_PUBLIC_APP_URL A = Inr au" "CRON_SECRET A = Inr cs" "\<not> falsy cs"
    "fetch A
       (bearer_get (or_else au ''http://localhost:3000'' @ ''/api/schedules/execute'') (text_of cs)) = Inr r"
    "ok r"
    "json r = Inr data"
    "data = JNull \<or> data = JUndefined"
  shows "pollSchedules E A tr =
    (Inr (), tr\<lparr>logged := logged tr @
        [(Debug, [Lit ''Polling schedules...'']),
         (Error, [Lit ''Error polling schedules:'', Caught TypeError_read])],
       requests := requests tr @
        [bearer_get (or_else au ''http://localhost:3000'' @ ''/api/schedules/execute'') (text_of cs)],
       body_reads := Suc (body_reads tr)\<rparr>)"
  using assms by (auto simp add: pollSchedules_def pollSchedules_try_def emit_def Let_def)

lemma pollSchedules_unconvertible:
  assumes "NEXT_PUBLIC_APP_URL A = Inr au" "CRON_SECRET A = Inr cs" "\<not> falsy cs"
    "fetch A
       (bearer_get (or_else au ''http://localhost:3000'' @ ''/api/schedules/execute'') (text_of cs)) = Inr r"
    "ok r"
    "json r = Inr data"
    "data \<noteq> JNull" "data \<noteq> JUndefined"
    "\<not> convertible (prop_value data ExecutedCount)"
  shows "pollSchedules E A tr =
    (Inr (), tr\<lparr>logged := logged tr @
        [(Debug, [Lit ''Polling schedules...'']),
         (Error, [Lit ''Error polling schedules:'', Caught TypeError_convert])],
       requests := requests tr @
        [bearer_get (or_else au ''http://localhost:3000'' @ ''/api/schedules/execute'') (text_of cs)],
       body_reads := Suc (body_reads tr)\<rparr>)"
  using assms by (auto simp add: pollSchedules_def pollSchedules_try_def emit_def Let_def get_prop_defined gt_zero_throws)

lemma pollSchedules_info:
  assumes "NEXT_PUBLIC_APP_URL A = Inr au" "CRON_SECRET A = Inr cs" "\<not> falsy cs"
    "fetch A
       (bearer_get (or_else au ''http://localhost:3000'' @ ''/api/schedules/execute'') (text_of cs)) = Inr r"
    "ok r"
    "json r = Inr data"
    "data \<noteq> JNull" "data \<noteq> JUndefined"
    "gt_zero E (prop_value data ExecutedCount) = Inr True"
    "ToString E (prop_value data ExecutedCount) = Inr s"
  shows "pollSchedules E A tr =
    (Inr (), tr\<lparr>logged := logged tr @
        [(Debug, [Lit ''Polling schedules...'']),
         (Info, [Lit ''Schedule poll completed: '', Str s, Lit '' workflows executed''])],
       requests := requests tr @
        [bearer_get (or_else au ''http://localhost:3000'' @ ''/api/schedules/execute'') (text_of cs)],
       body_reads := Suc (body_reads tr)\<rparr>)"
  using assms by (auto simp add: pollSchedules_def pollSchedules_try_def emit_def Let_def get_prop_defined)

lemma pollSchedules_debug:
  assumes "NEXT_PUBLIC_APP_URL A = Inr au" "CRON_SECRET A = Inr cs" "\<not> falsy cs"
    "fetch A
       (bearer_get (or_else au ''http://localhost:3000'' @ ''/api/schedules/execute'') (text_of cs)) = Inr r"
    "ok r"
    "json r = Inr data"
    "data \<noteq> JNull" "data \<noteq> JUndefined"
    "gt_zero E (prop_value data ExecutedCount) = Inr False"
  shows "pollSchedules E A tr =
    (Inr (), tr\<lparr>logged := logged tr @
        [(Debug, [Lit ''Polling schedules...'']),
         (Debug, [Lit ''Schedule poll completed: no workflows due''])],
       requests := requests tr @
        [bearer_get (or_else au ''http://localhost:3000'' @ ''/api/schedules/execute'') (text_of cs)],
       body_reads := Suc (body_reads tr)\<rparr>)"
  using assms by (auto simp add: pollSchedules_def pollSchedules_try_def emit_def Let_def get_prop_defined)

lemma pollOutlook_url_throws:
  assumes "NEXT_PUBLIC_APP_URL A = Inl x"
  shows "pollOutlook E A tr =
    (Inr (), tr\<lparr>logged := logged tr @
        [(Error, [Lit ''Error polling Outlook:'', Caught x])]\<rparr>)"
  using assms by (auto simp add: pollOutlook_def pollOutlook_try_def emit_def Let_def)

lemma pollOutlook_secret_throws:
  assumes "NEXT_PUBLIC_APP_URL A = Inr au"
    "CRON_SECRET A = Inl x"
  shows "pollOutlook E A tr =
    (Inr (), tr\<lparr>logged := logged tr @
        [(Error, [Lit ''Error polling Outlook:'', Caught x])]\<rparr>)"
  using assms by (auto simp add: pollOutlook_def pollOutlook_try_def emit_def Let_def)

lemma pollOutlook_fetch_throws:
  assumes "NEXT_PUBLIC_APP_URL A = Inr au" "CRON_SECRET A = Inr cs" "\<not> falsy cs"
    "fetch A
       (bearer_get (or_else au ''http://localhost:3000'' @ ''/api/webhooks/poll/outlook'') (text_of cs)) = Inl x"
  shows "pollOutlook E A tr =
    (Inr (), tr\<lparr>logged := logged tr @
        [(Debug, [Lit ''Polling Outlook...'']),
         (Error, [Lit ''Error polling Outlook:'', Caught x])],
       requests := requests tr @
        [bearer_get (or_else au ''http://localhost:3000'' @ ''/api/webhooks/poll/outlook'') (text_of cs)]\<rparr>)"
  using assms by (auto simp add: pollOutlook_def pollOutlook_try_def emit_def Let_def)

lemma pollOutlook_json_throws:
  assumes "NEXT_PUBLIC_APP_URL A = Inr au" "CRON_SECRET A = Inr cs" "\<not> falsy cs"
    "fetch A
       (bearer_get (or_else au ''http://localhost:3000'' @ ''/api/webhooks/poll/outlook'') (text_of cs)) = Inr r"
    "ok r"
    "json r = Inl x"
  shows "pollOutlook E A tr =
    (Inr (), tr\<lparr>logged := logged tr @
        [(Debug, [Lit ''Polling Outlook...'']),
         (Error, [Lit ''Error polling Outlook:'', Caught x])],
       requests := requests tr @
        [bearer_get (or_else au ''http://localhost:3000'' @ ''/api/webhooks/poll/outlook'') (text_of cs)],
       body_reads := Suc (body_reads tr)\<rparr>)"
  using assms by (auto simp add: pollOutlook_def pollOutlook_try_def emit_def Let_def)

lemma pollOutlook_null_body:
  assumes "NEXT_PUBLIC_APP_URL A = Inr au" "CRON_SECRET A = Inr cs" "\<not> falsy cs"
    "fetch A
       (bearer_get (or_else au ''http://localhost:3000'' @ ''/api/webhooks/poll/outlook'') (text_of cs)) = Inr r"
    "ok r"
    "json r = Inr data"
    "data = JNull \<or> data = JUndefined"
  shows "pollOutlook E A tr =
    (Inr (), tr\<lparr>logged := logged tr @
        [(Debug, [Lit ''Polling Outlook...'']),
         (Error, [Lit ''Error polling Outlook:'', Caught TypeError_read])],
       requests := requests tr @
        [bearer_get (or_else au ''http://localhost:3000'' @ ''/api/webhooks/poll/outlook'') (text_of cs)],
       body_reads := Suc (body_reads tr)\<rparr>)"
  using assms by (auto simp add: pollOutlook_def pollOutlook_try_def emit_def Let_def)

lemma pollOutlook_unconvertible:
  assumes "NEXT_PUBLIC_APP_URL A = Inr au" "CRON_SECRET A = Inr cs" "\<not> falsy cs"
    "fetch A
       (bearer_get (or_else au ''http://localhost:3000'' @ ''/api/webhooks/poll/outlook'') (text_of cs)) = Inr r"
    "ok r"
    "json r = Inr data"
    "data \<noteq> JNull" "data \<noteq> JUndefined"
    "\<not> convertible (prop_value data Total)"
  shows "pollOutlook E A tr =
    (Inr (), tr\<lparr>logged := logged tr @
        [(Debug, [Lit ''Polling Outlook...'']),
         (Error, [Lit ''Error polling Outlook:'', Caught TypeError_convert])],
       requests := requests tr @
        [bearer_get (or_else au ''http://localhost:3000'' @ ''/api/webhooks/poll/outlook'') (text_of cs)],
       body_reads := Suc (body_reads tr)\<rparr>)"
  using assms by (auto simp add: pollOutlook_def pollOutlook_try_def emit_def Let_def get_prop_defined gt_zero_throws)

lemma pollOutlook_successful_unconvertible:
  assumes "NEXT_PUBLIC_APP_URL A = Inr au" "CRON_SECRET A = Inr cs" "\<not> falsy cs"
    "fetch A
       (bearer_get (or_else au ''http://localhost:3000'' @ ''/api/webhooks/poll/outlook'') (text_of cs)) = Inr r"
    "ok r"
    "json r = Inr data"
    "data \<noteq> JNull" "data \<noteq> JUndefined"
    "gt_zero E (prop_value data Total) = Inr True"
    "ToString E (prop_value data Total) = Inr s"
    "\<not> convertible (prop_value data Successful)"
  shows "pollOutlook E A tr =
    (Inr (), tr\<lparr>logged := logged tr @
        [(Debug, [Lit ''Polling Outlook...'']),
         (Error, [Lit ''Error polling Outlook:'', Caught TypeError_convert])],
       requests := requests tr @
        [bearer_get (or_else au ''http://localhost:3000'' @ ''/api/webhooks/poll/outlook'') (text_of cs)],
       body_reads := Suc (body_reads tr)\<rparr>)"
  using assms by (auto simp add: pollOutlook_def pollOutlook_try_def emit_def Let_def get_prop_defined ToString_throws)

lemma pollOutlook_info:
  assumes "NEXT_PUBLIC_APP_URL A = Inr au" "CRON_SECRET A = Inr cs" "\<not> falsy cs"
    "fetch A
       (bearer_get (or_else au ''http://localhost:3000'' @ ''/api/webhooks/poll/outlook'') (text_of cs)) = Inr r"
    "ok r"
    "json r = Inr data"
    "data \<noteq> JNull" "data \<noteq> JUndefined"
    "gt_zero E (prop_value data Total) = Inr True"
    "ToString E (prop_value data Total) = Inr s"
    "ToString E (prop_value data Successful) = Inr s'"
  shows "pollOutlook E A tr =
    (Inr (), tr\<lparr>logged := logged tr @
        [(Debug, [Lit ''Polling Outlook...'']),
         (Info, [Lit ''Outlook poll completed: '', Str s, Lit '' webhooks checked, '', Str s',
                 Lit '' successful''])],
       requests := requests tr @
        [bearer_get (or_else au ''http://localhost:3000'' @ ''/api/webhooks/poll/outlook'') (text_of cs)],
       body_reads := Suc (body_reads tr)\<rparr>)"
  using assms by (auto simp add: pollOutlook_def pollOutlook_try_def emit_def Let_def get_prop_defined)

lemma pollOutlook_debug:
  assumes "NEXT_PUBLIC_APP_URL A = Inr au" "CRON_SECRET A = Inr cs" "\<not> falsy cs"
    "fetch A
       (bearer_get (or_else au ''http://localhost:3000'' @ ''/api/webhooks/poll/outlook'') (text_of cs)) = Inr r"
    "ok r"
    "json r = Inr data"
    "data \<noteq> JNull" "data \<noteq> JUndefined"
    "gt_zero E (prop_value data Total) = Inr False"
  shows "pollOutlook E A tr =
    (Inr (), tr\<lparr>logged := logged tr @
        [(Debug, [Lit ''Polling Outlook...'']),
         (Debug, [Lit ''Outlook poll completed: no active webhooks''])],
       requests := requests tr @
        [bearer_get (or_else au ''http://localhost:3000'' @ ''/api/webhooks/poll/outlook'') (text_of cs)],
       body_reads := Suc (body_reads tr)\<rparr>)"
  using assms by (auto simp add: pollOutlook_def pollOutlook_try_def emit_def Let_def get_prop_defined)

lemma replying_reads:
  "NEXT_PUBLIC_APP_URL (replying st txt body) = Inr None"
  "CRON_SECRET (replying st txt body) = Inr (Some ''s3cret'')"
  "fetch (replying st txt body) req = Inr \<lparr>status = st, statusText = txt, json = body\<rparr>"
  "\<not> falsy (Some ''s3cret'')"
  by (simp_all add: replying_def falsy_def)

section \<open>The poll tasks' properties\<close>

text \<open>
  Claim C2. Whatever the reads of the configuration, the network call and the reading of
  the body do, throwing included, the promise of either poll task is fulfilled, never
  rejected. And every exception that can arise in a task is caught in it and logged at
  error level: one thrown by a read of \<open>env\<close>, by \<open>fetch\<close>, by
  \<open>response.json()\<close>, by the read of a property of a null body, or by the conversion of
  a field of the body to a number or to text.
\<close>

theorem poll_never_throws:
  "fst (pollSchedules E A tr) = Inr () \<and>
   fst (pollOutlook E A tr) = Inr () \<and>
   (NEXT_PUBLIC_APP_URL A = Inl x \<longrightarrow>
      pollSchedules E A tr =
       (Inr (), tr\<lparr>logged := logged tr @
           [(Error, [Lit ''Error polling schedules:'', Caught x])]\<rparr>)) \<and>
   (NEXT_PUBLIC_APP_URL A = Inr au \<and>
    CRON_SECRET A = Inl x \<longrightarrow>
      pollSchedules E A tr =
       (Inr (), tr\<lparr>logged := logged tr @
           [(Error, [Lit ''Error polling schedules:'', Caught x])]\<rparr>)) \<and>
   (NEXT_PUBLIC_APP_URL A = Inr au \<and>
    CRON_SECRET A = Inr cs \<and>
    \<not> falsy cs \<and>
    fetch A
       (bearer_get (or_else au ''http://localhost:3000'' @ ''/api/schedules/execute'') (text_of cs)) = Inl x \<longrightarrow>
      pollSchedules E A tr =
       (Inr (), tr\<lparr>logged := logged tr @
           [(Debug, [Lit ''Polling schedules...'']),
            (Error, [Lit ''Error polling schedules:'', Caught x])],
          requests := requests tr @
           [bearer_get (or_else au ''http://localhost:3000'' @ ''/api/schedules/execute'') (text_of cs)]\<rparr>)) \<and>
   (NEXT_PUBLIC_APP_URL A = Inr au \<and>
    CRON_SECRET A = Inr cs \<and>
    \<not> falsy cs \<and>
    fetch A
       (bearer_get (or_else au ''http://localhost:3000'' @ ''/api/schedules/execute'') (text_of cs)) = Inr r \<and>
    ok r \<and>
    json r = Inl x \<longrightarrow>
      pollSchedules E A tr =
       (Inr (), tr\<lparr>logged := logged tr @
           [(Debug, [Lit ''Polling schedules...'']),
            (Error, [Lit ''Error polling schedules:'', Caught x])],
          requests := requests tr @
           [bearer_get (or_else au ''http://localhost:3000'' @ ''/api/schedules/execute'') (text_of cs)],
          body_reads := Suc (body_reads tr)\<rparr>)) \<and>
   (NEXT_PUBLIC_APP_URL A = Inr au \<and>
    CRON_SECRET A = Inr cs \<and>
    \<not> falsy cs \<and>
    fetch A
       (bearer_get (or_else au ''http://localhost:3000'' @ ''/api/schedules/execute'') (text_of cs)) = Inr r \<and>
    ok r \<and>
    json r = Inr data \<and>
    (data = JNull \<or> data = JUndefined) \<longrightarrow>
      pollSchedules E A tr =
       (Inr (), tr\<lparr>logged := logged tr @
           [(Debug, [Lit ''Polling schedules...'']),
            (Error, [Lit ''Error polling schedules:'', Caught TypeError_read])],
          requests := requests tr @
           [bearer_get (or_else au ''http://localhost:3000'' @ ''/api/schedules/execute'') (text_of cs)],
          body_reads := Suc (body_reads tr)\<rparr>)) \<and>
   (NEXT_PUBLIC_APP_URL A = Inr au \<and>
    CRON_SECRET A = Inr cs \<and>
    \<not> falsy cs \<and>
    fetch A
       (bearer_get (or_else au ''http://localhost:3000'' @ ''/api/schedules/execute'') (text_of cs)) = Inr r \<and>
    ok r \<and>
    json r = Inr data \<and>
    data \<noteq> JNull \<and>
    data \<noteq> JUndefined \<and>
    \<not> convertible (prop_value data ExecutedCount) \<longrightarrow>
      pollSchedules E A tr =
       (Inr (), tr\<lparr>logged := logged tr @
           [(Debug, [Lit ''Polling schedules...'']),
            (Error, [Lit ''Error polling schedules:'', Caught TypeError_convert])],
          requests := requests tr @
           [bearer_get (or_else au ''http://localhost:3000'' @ ''/api/schedules/execute'') (text_of cs)],
          body_reads := Suc (body_reads tr)\<rparr>)) \<and>
   (NEXT_PUBLIC_APP_URL A = Inl x \<longrightarrow>
      pollOutlook E A tr =
       (Inr (), tr\<lparr>logged := logged tr @
           [(Error, [Lit ''Error polling Outlook:'', Caught x])]\<rparr>)) \<and>
   (NEXT_PUBLIC_APP_URL A = Inr au \<and>
    CRON_SECRET A = Inl x \<longrightarrow>
      pollOutlook E A tr =
       (Inr (), tr\<lparr>logged := logged tr @
           [(Error, [Lit ''Error polling Outlook:'', Caught x])]\<rparr>)) \<and>
   (NEXT_PUBLIC_APP_URL A = Inr au \<and>
    CRON_SECRET A = Inr cs \<and>
    \<not> falsy cs \<and>
    fetch A
       (bearer_get (or_else au ''http://localhost:3000'' @ ''/api/webhooks/poll/outlook'') (text_of cs)) = Inl x \<longrightarrow>
      pollOutlook E A tr =
       (Inr (), tr\<lparr>logged := logged tr @
           [(Debug, [Lit ''Polling Outlook...'']),
            (Error, [Lit ''Error polling Outlook:'', Caught x])],
          requests := requests tr @
           [bearer_get (or_else au ''http://localhost:3000'' @ ''/api/webhooks/poll/outlook'') (text_of cs)]\<rparr>)) \<and>
   (NEXT_PUBLIC_APP_URL A = Inr au \<and>
    CRON_SECRET A = Inr cs \<and>
    \<not> falsy cs \<and>
    fetch A
       (bearer_get (or_else au ''http://localhost:3000'' @ ''/api/webhooks/poll/outlook'') (text_of cs)) = Inr r \<and>
    ok r \<and>
    json r = Inl x \<longrightarrow>
      pollOutlook E A tr =
       (Inr (), tr\<lparr>logged := logged tr @
           [(Debug, [Lit ''Polling Outlook...'']),
            (Error, [Lit ''Error polling Outlook:'', Caught x])],
          requests := requests tr @
           [bearer_get (or_else au ''http://localhost:3000'' @ ''/api/webhooks/poll/outlook'') (text_of cs)],
          body_reads := Suc (body_reads tr)\<rparr>)) \<and>
   (NEXT_PUBLIC_APP_URL A = Inr au \<and>
    CRON_SECRET A = Inr cs \<and>
    \<not> falsy cs \<and>
    fetch A
       (bearer_get (or_else au ''http://localhost:3000'' @ ''/api/webhooks/poll/outlook'') (text_of cs)) = Inr r \<and>
    ok r \<and>
    json r = Inr data \<and>
    (data = JNull \<or> data = JUndefined) \<longrightarrow>
      pollOutlook E A tr =
       (Inr (), tr\<lparr>logged := logged tr @
           [(Debug, [Lit ''Polling Outlook...'']),
            (Error, [Lit ''Error polling Outlook:'', Caught TypeError_read])],
          requests := requests tr @
           [bearer_get (or_else au ''http://localhost:3000'' @ ''/api/webhooks/poll/outlook'') (text_of cs)],
          body_reads := Suc (body_reads tr)\<rparr>)) \<and>
   (NEXT_PUBLIC_APP_URL A = Inr au \<and>
    CRON_SECRET A = Inr cs \<and>
    \<not> falsy cs \<and>
    fetch A
       (bearer_get (or_else au ''http://localhost:3000'' @ ''/api/webhooks/poll/outlook'') (text_of cs)) = Inr r \<and>
    ok r \<and>
    json r = Inr data \<and>
    data \<noteq> JNull \<and>
    data \<noteq> JUndefined \<and>
    \<not> convertible (prop_value data Total) \<longrightarrow>
      pollOutlook E A tr =
       (Inr (), tr\<lparr>logged := logged tr @
           [(Debug, [Lit ''Polling Outlook...'']),
            (Error, [Lit ''Error polling Outlook:'', Caught TypeError_convert])],
          requests := requests tr @
           [bearer_get (or_else au ''http://localhost:3000'' @ ''/api/webhooks/poll/outlook'') (text_of cs)],
          body_reads := Suc (body_reads tr)\<rparr>)) \<and>
   (NEXT_PUBLIC_APP_URL A = Inr au \<and>
    CRON_SECRET A = Inr cs \<and>
    \<not> falsy cs \<and>
    fetch A
       (bearer_get (or_else au ''http://localhost:3000'' @ ''/api/webhooks/poll/outlook'') (text_of cs)) = Inr r \<and>
    ok r \<and>
    json r = Inr data \<and>
    data \<noteq> JNull \<and>
    data \<noteq> JUndefined \<and>
    gt_zero E (prop_value data Total) = Inr True \<and>
    ToString E (prop_value data Total) = Inr s \<and>
    \<not> convertible (prop_value data Successful) \<longrightarrow>
      pollOutlook E A tr =
       (Inr (), tr\<lparr>logged := logged tr @
           [(Debug, [Lit ''Polling Outlook...'']),
            (Error, [Lit ''Error polling Outlook:'', Caught TypeError_convert])],
          requests := requests tr @
           [bearer_get (or_else au ''http://localhost:3000'' @ ''/api/webhooks/poll/outlook'') (text_of cs)],
          body_reads := Suc (body_reads tr)\<rparr>))"
proof -
  have c0: "(NEXT_PUBLIC_APP_URL A = Inl x \<longrightarrow>
        pollSchedules E A tr =
         (Inr (), tr\<lparr>logged := logged tr @
             [(Error, [Lit ''Error polling schedules:'', Caught x])]\<rparr>))"
    by (intro impI, (elim conjE)?, rule pollSchedules_url_throws; assumption)
  have c1: "(NEXT_PUBLIC_APP_URL A = Inr au \<and>
      CRON_SECRET A = Inl x \<longrightarrow>
        pollSchedules E A tr =
         (Inr (), tr\<lparr>logged := logged tr @
             [(Error, [Lit ''Error polling schedules:'', Caught x])]\<rparr>))"
    by (intro impI, (elim conjE)?, rule pollSchedules_secret_throws; assumption)
  have c2: "(NEXT_PUBLIC_APP_URL A = Inr au \<and>
      CRON_SECRET A = Inr cs \<and>
      \<not> falsy cs \<and>
      fetch A
       (bearer_get (or_else au ''http://localhost:3000'' @ ''/api/schedules/execute'') (text_of cs)) = Inl x \<longrightarrow>
        pollSchedules E A tr =
         (Inr (), tr\<lparr>logged := logged tr @
             [(Debug, [Lit ''Polling schedules...'']),
              (Error, [Lit ''Error polling schedules:'', Caught x])],
            requests := requests tr @
             [bearer_get (or_else au ''http://localhost:3000'' @ ''/api/schedules/execute'') (text_of cs)]\<rparr>))"
    by (intro impI, (elim conjE)?, rule pollSchedules_fetch_throws; assumption)
  have c3: "(NEXT_PUBLIC_APP_URL A = Inr au \<and>
      CRON_SECRET A = Inr cs \<and>
      \<not> falsy cs \<and>
      fetch A
       (bearer_get (or_else au ''http://localhost:3000'' @ ''/api/schedules/execute'') (text_of cs)) = Inr r \<and>
      ok r \<and>
      json r = Inl x \<longrightarrow>
        pollSchedules E A tr =
         (Inr (), tr\<lparr>logged := logged tr @
             [(Debug, [Lit ''Polling schedules...'']),
              (Error, [Lit ''Error polling schedules:'', Caught x])],
            requests := requests tr @
             [bearer_get (or_else au ''http://localhost:3000'' @ ''/api/schedules/execute'') (text_of cs)],
            body_reads := Suc (body_reads tr)\<rparr>))"
    by (intro impI, (elim conjE)?, rule pollSchedules_json_throws; assumption)
  have c4: "(NEXT_PUBLIC_APP_URL A = Inr au \<and>
      CRON_SECRET A = Inr cs \<and>
      \<not> falsy cs \<and>
      fetch A
       (bearer_get (or_else au ''http://localhost:3000'' @ ''/api/schedules/execute'') (text_of cs)) = Inr r \<and>
      ok r \<and>
      json r = Inr data \<and>
      (data = JNull \<or> data = JUndefined) \<longrightarrow>
        pollSchedules E A tr =
         (Inr (), tr\<lparr>logged := logged tr @
             [(Debug, [Lit ''Polling schedules...'']),
              (Error, [Lit ''Error polling schedules:'', Caught TypeError_read])],
            requests := requests tr @
             [bearer_get (or_else au ''http://localhost:3000'' @ ''/api/schedules/execute'') (text_of cs)],
            body_reads := Suc (body_reads tr)\<rparr>))"
    by (intro impI, (elim conjE)?, rule pollSchedules_null_body; assumption)
  have c5: "(NEXT_PUBLIC_APP_URL A = Inr au \<and>
      CRON_SECRET A = Inr cs \<and>
      \<not> falsy cs \<and>
      fetch A
       (bearer_get (or_else au ''http://localhost:3000'' @ ''/api/schedules/execute'') (text_of cs)) = Inr r \<and>
      ok r \<and>
      json r = Inr data \<and>
      data \<noteq> JNull \<and>
      data \<noteq> JUndefined \<and>
      \<not> convertible (prop_value data ExecutedCount) \<longrightarrow>
        pollSchedules E A tr =
         (Inr (), tr\<lparr>logged := logged tr @
             [(Debug, [Lit ''Polling schedules...'']),
              (Error, [Lit ''Error polling schedules:'', Caught TypeError_convert])],
            requests := requests tr @
             [bearer_get (or_else au ''http://localhost:3000'' @ ''/api/schedules/execute'') (text_of cs)],
            body_reads := Suc (body_reads tr)\<rparr>))"
    by (intro impI, (elim conjE)?, rule pollSchedules_unconvertible; assumption)
  have c6: "(NEXT_PUBLIC_APP_URL A = Inl x \<longrightarrow>
        pollOutlook E A tr =
         (Inr (), tr\<lparr>logged := logged tr @
             [(Error, [Lit ''Error polling Outlook:'', Caught x])]\<rparr>))"
    by (intro impI, (elim conjE)?, rule pollOutlook_url_throws; assumption)
  have c7: "(NEXT_PUBLIC_APP_URL A = Inr au \<and>
      CRON_SECRET A = Inl x \<longrightarrow>
        pollOutlook E A tr =
         (Inr (), tr\<lparr>logged := logged tr @
             [(Error, [Lit ''Error polling Outlook:'', Caught x])]\<rparr>))"
    by (intro impI, (elim conjE)?, rule pollOutlook_secret_throws; assumption)
  have c8: "(NEXT_PUBLIC_APP_URL A = Inr au \<and>
      CRON_SECRET A = Inr cs \<and>
      \<not> falsy cs \<and>
      fetch A
       (bearer_get (or_else au ''http://localhost:3000'' @ ''/api/webhooks/poll/outlook'') (text_of cs)) = Inl x \<longrightarrow>
        pollOutlook E A tr =
         (Inr (), tr\<lparr>logged := logged tr @
             [(Debug, [Lit ''Polling Outlook...'']),
              (Error, [Lit ''Error polling Outlook:'', Caught x])],
            requests := requests tr @
             [bearer_get (or_else au ''http://localhost:3000'' @ ''/api/webhooks/poll/outlook'') (text_of cs)]\<rparr>))"
    by (intro impI, (elim conjE)?, rule pollOutlook_fetch_throws; assumption)
  have c9: "(NEXT_PUBLIC_APP_URL A = Inr au \<and>
      CRON_SECRET A = Inr cs \<and>
      \<not> falsy cs \<and>
      fetch A
       (bearer_get (or_else au ''http://localhost:3000'' @ ''/api/webhooks/poll/outlook'') (text_of cs)) = Inr r \<and>
      ok r \<and>
      json r = Inl x \<longrightarrow>
        pollOutlook E A tr =
         (Inr (), tr\<lparr>logged := logged tr @
             [(Debug, [Lit ''Polling Outlook...'']),
              (Error, [Lit ''Error polling Outlook:'', Caught x])],
            requests := requests tr @
             [bearer_get (or_else au ''http://localhost:3000'' @ ''/api/webhooks/poll/outlook'') (text_of cs)],
            body_reads := Suc (body_reads tr)\<rparr>))"
    by (intro impI, (elim conjE)?, rule pollOutlook_json_throws; assumption)
  have c10: "(NEXT_PUBLIC_APP_URL A = Inr au \<and>
      CRON_SECRET A = Inr cs \<and>
      \<not> falsy cs \<and>
      fetch A
       (bearer_get (or_else au ''http://localhost:3000'' @ ''/api/webhooks/poll/outlook'') (text_of cs)) = Inr r \<and>
      ok r \<and>
      json r = Inr data \<and>
      (data = JNull \<or> data = JUndefined) \<longrightarrow>
        pollOutlook E A tr =
         (Inr (), tr\<lparr>logged := logged tr @
             [(Debug, [Lit ''Polling Outlook...'']),
              (Error, [Lit ''Error polling Outlook:'', Caught TypeError_read])],
            requests := requests tr @
             [bearer_get (or_else au ''http://localhost:3000'' @ ''/api/webhooks/poll/outlook'') (text_of cs)],
            body_reads := Suc (body_reads tr)\<rparr>))"
    by (intro impI, (elim conjE)?, rule pollOutlook_null_body; assumption)
  have c11: "(NEXT_PUBLIC_APP_URL A = Inr au \<and>
      CRON_SECRET A = Inr cs \<and>
      \<not> falsy cs \<and>
      fetch A
       (bearer_get (or_else au ''http://localhost:3000'' @ ''/api/webhooks/poll/outlook'') (text_of cs)) = Inr r \<and>
      ok r \<and>
      json r = Inr data \<and>
      data \<noteq> JNull \<and>
      data \<noteq> JUndefined \<and>
      \<not> convertible (prop_value data Total) \<longrightarrow>
        pollOutlook E A tr =
         (Inr (), tr\<lparr>logged := logged tr @
             [(Debug, [Lit ''Polling Outlook...'']),
              (Error, [Lit ''Error polling Outlook:'', Caught TypeError_convert])],
            requests := requests tr @
             [bearer_get (or_else au ''http://localhost:3000'' @ ''/api/webhooks/poll/outlook'') (text_of cs)],
            body_reads := Suc (body_reads tr)\<rparr>))"
    by (intro impI, (elim conjE)?, rule pollOutlook_unconvertible; assumption)
  have c12: "(NEXT_PUBLIC_APP_URL A = Inr au \<and>
      CRON_SECRET A = Inr cs \<and>
      \<not> falsy cs \<and>
      fetch A
       (bearer_get (or_else au ''http://localhost:3000'' @ ''/api/webhooks/poll/outlook'') (text_of cs)) = Inr r \<and>
      ok r \<and>
      json r = Inr data \<and>
      data \<noteq> JNull \<and>
      data \<noteq> JUndefined \<and>
      gt_zero E (prop_value data Total) = Inr True \<and>
      ToString E (prop_value data Total) = Inr s \<and>
      \<not> convertible (prop_value data Successful) \<longrightarrow>
        pollOutlook E A tr =
         (Inr (), tr\<lparr>logged := logged tr @
             [(Debug, [Lit ''Polling Outlook...'']),
              (Error, [Lit ''Error polling Outlook:'', Caught TypeError_convert])],
            requests := requests tr @
             [bearer_get (or_else au ''http://localhost:3000'' @ ''/api/webhooks/poll/outlook'') (text_of cs)],
            body_reads := Suc (body_reads tr)\<rparr>))"
    by (intro impI, (elim conjE)?, rule pollOutlook_successful_unconvertible; assumption)
  show ?thesis
    using pollSchedules_settles [of E A tr] pollOutlook_settles [of E A tr]
      c0 c1 c2 c3 c4 c5 c6 c7 c8 c9 c10 c11 c12
    by (intro conjI) assumption+
qed

theorem poll_never_throws_witness:
  "pollSchedules sample_engine
      ((replying 200 ''OK'' (Inr JNull))\<lparr>fetch := (\<lambda>req. Inl (Thrown ''fetch failed''))\<rparr>) silent =
     (Inr (),
      \<lparr>logged = [(Debug, [Lit ''Polling schedules...'']),
                 (Error, [Lit ''Error polling schedules:'', Caught (Thrown ''fetch failed'')])],
       requests = [bearer_get ''http://localhost:3000/api/schedules/execute'' ''s3cret''],
       body_reads = 0\<rparr>) \<and>
   pollOutlook sample_engine
      ((replying 200 ''OK'' (Inr JNull))\<lparr>CRON_SECRET := Inl (Thrown ''server-side variable'')\<rparr>) silent =
     (Inr (),
      \<lparr>logged = [(Error, [Lit ''Error polling Outlook:'', Caught (Thrown ''server-side variable'')])],
       requests = [], body_reads = 0\<rparr>) \<and>
   pollSchedules sample_engine (replying 200 ''OK'' (Inl (Thrown ''SyntaxError''))) silent =
     (Inr (),
      \<lparr>logged = [(Debug, [Lit ''Polling schedules...'']),
                 (Error, [Lit ''Error polling schedules:'', Caught (Thrown ''SyntaxError'')])],
       requests = [bearer_get ''http://localhost:3000/api/schedules/execute'' ''s3cret''],
       body_reads = 1\<rparr>) \<and>
   pollOutlook sample_engine (replying 200 ''OK'' (Inr JNull)) silent =
     (Inr (),
      \<lparr>logged = [(Debug, [Lit ''Polling Outlook...'']),
                 (Error, [Lit ''Error polling Outlook:'', Caught TypeError_read])],
       requests = [bearer_get ''http://localhost:3000/api/webhooks/poll/outlook'' ''s3cret''],
       body_reads = 1\<rparr>) \<and>
   pollSchedules sample_engine
      (replying 200 ''OK'' (Inr (JObj [(''executedCount'', JObj [(''toString'', JNum (Fin 1))])]))) silent =
     (Inr (),
      \<lparr>logged = [(Debug, [Lit ''Polling schedules...'']),
                 (Error, [Lit ''Error polling schedules:'', Caught TypeError_convert])],
       requests = [bearer_get ''http://localhost:3000/api/schedules/execute'' ''s3cret''],
       body_reads = 1\<rparr>)"
  using
    poll_never_throws [where E = sample_engine and tr = silent and x = "Thrown ''fetch failed''"
      and A = "(replying 200 ''OK'' (Inr JNull))\<lparr>fetch := (\<lambda>req. Inl (Thrown ''fetch failed''))\<rparr>"
      and au = None and cs = "Some ''s3cret''"]
    poll_never_throws [where E = sample_engine and tr = silent and x = "Thrown ''server-side variable''"
      and A = "(replying 200 ''OK'' (Inr JNull))\<lparr>CRON_SECRET := Inl (Thrown ''server-side variable'')\<rparr>"
      and au = None]
    poll_never_throws [where E = sample_engine and tr = silent and x = "Thrown ''SyntaxError''"
      and A = "replying 200 ''OK'' (Inl (Thrown ''SyntaxError''))"
      and au = None and cs = "Some ''s3cret''"
      and r = "\<lparr>status = 200, statusText = ''OK'', json = Inl (Thrown ''SyntaxError'')\<rparr>"]
    poll_never_throws [where E = sample_engine and tr = silent
      and A = "replying 200 ''OK'' (Inr JNull)"
      and au = None and cs = "Some ''s3cret''" and data = JNull
      and r = "\<lparr>status = 200, statusText = ''OK'', json = Inr JNull\<rparr>"]
    poll_never_throws [where E = sample_engine and tr = silent
      and A = "replying 200 ''OK'' (Inr (JObj [(''executedCount'', JObj [(''toString'', JNum (Fin 1))])]))"
      and au = None and cs = "Some ''s3cret''"
      and data = "JObj [(''executedCount'', JObj [(''toString'', JNum (Fin 1))])]"
      and r = "\<lparr>status = 200, statusText = ''OK'',
                json = Inr (JObj [(''executedCount'', JObj [(''toString'', JNum (Fin 1))])])\<rparr>"]
  by (simp add: replying_def falsy_def or_else_def text_of_def silent_def ok_def)

text \<open>
  Claim C5. When \<open>CRON_SECRET\<close> is unset (or empty), either poll task sends no request,
  adds exactly one log line, a warning that names the task skipped, and its promise is
  fulfilled.
\<close>

theorem config_missing_skip:
  assumes "NEXT_PUBLIC_APP_URL A = Inr au" and "CRON_SECRET A = Inr cs" and "falsy cs"
  shows "pollSchedules E A tr =
           (Inr (), tr\<lparr>logged := logged tr @
              [(Warn, [Lit ''CRON_SECRET not configured - skipping schedule polling''])]\<rparr>) \<and>
         pollOutlook E A tr =
           (Inr (), tr\<lparr>logged := logged tr @
              [(Warn, [Lit ''CRON_SECRET not configured - skipping Outlook polling''])]\<rparr>) \<and>
         requests (snd (pollSchedules E A tr)) = requests tr \<and>
         requests (snd (pollOutlook E A tr)) = requests tr"
  by (simp add: pollSchedules_skip [OF assms] pollOutlook_skip [OF assms])

theorem config_missing_skip_witness:
  "falsy None \<and> falsy (Some []) \<and>
   pollSchedules sample_engine ((replying 200 ''OK'' (Inr JNull))\<lparr>CRON_SECRET := Inr None\<rparr>) silent =
     (Inr (), \<lparr>logged = [(Warn, [Lit ''CRON_SECRET not configured - skipping schedule polling''])],
               requests = [], body_reads = 0\<rparr>) \<and>
   pollOutlook sample_engine ((replying 200 ''OK'' (Inr JNull))\<lparr>CRON_SECRET := Inr (Some [])\<rparr>) silent =
     (Inr (), \<lparr>logged = [(Warn, [Lit ''CRON_SECRET not configured - skipping Outlook polling''])],
               requests = [], body_reads = 0\<rparr>)"
proof -
  have f: "falsy None" "falsy (Some [])" by (simp_all add: falsy_def)
  have a: "NEXT_PUBLIC_APP_URL ((replying 200 ''OK'' (Inr JNull))\<lparr>CRON_SECRET := c\<rparr>) = Inr None"
      "CRON_SECRET ((replying 200 ''OK'' (Inr JNull))\<lparr>CRON_SECRET := c\<rparr>) = c" for c
    by (simp_all add: replying_def)
  from config_missing_skip [OF a(1) a(2) f(1), of sample_engine silent]
    config_missing_skip [OF a(1) a(2) f(2), of sample_engine silent] f
  show ?thesis by (simp add: silent_def)
qed

text \<open>
  Claim C6. When the response to the request has a status outside 200..299, the task has
  sent exactly that one request, logs at error level a message made of the status code and
  the status text, does not read the body, and its promise is fulfilled.
\<close>

theorem non_2xx_handling:
  assumes "NEXT_PUBLIC_APP_URL A = Inr au" and "CRON_SECRET A = Inr cs" and "\<not> falsy cs"
  shows "(fetch A (bearer_get (or_else au ''http://localhost:3000'' @ ''/api/schedules/execute'')
            (text_of cs)) = Inr r \<and> \<not> ok r \<longrightarrow>
          pollSchedules E A tr =
           (Inr (), tr\<lparr>logged := logged tr @
               [(Debug, [Lit ''Polling schedules...'']),
                (Error, [Lit ''Schedule polling failed: '', Code (status r), Lit '' '',
                         Str (statusText r)])],
              requests := requests tr @
               [bearer_get (or_else au ''http://localhost:3000'' @ ''/api/schedules/execute'')
                  (text_of cs)]\<rparr>) \<and>
          body_reads (snd (pollSchedules E A tr)) = body_reads tr \<and>
          length (requests (snd (pollSchedules E A tr))) = Suc (length (requests tr))) \<and>
         (fetch A (bearer_get (or_else au ''http://localhost:3000'' @ ''/api/webhooks/poll/outlook'')
            (text_of cs)) = Inr r \<and> \<not> ok r \<longrightarrow>
          pollOutlook E A tr =
           (Inr (), tr\<lparr>logged := logged tr @
               [(Debug, [Lit ''Polling Outlook...'']),
                (Error, [Lit ''Outlook polling failed: '', Code (status r), Lit '' '',
                         Str (statusText r)])],
              requests := requests tr @
               [bearer_get (or_else au ''http://localhost:3000'' @ ''/api/webhooks/poll/outlook'')
                  (text_of cs)]\<rparr>) \<and>
          body_reads (snd (pollOutlook E A tr)) = body_reads tr \<and>
          length (requests (snd (pollOutlook E A tr))) = Suc (length (requests tr)))"
proof (intro conjI impI)
  assume h: "fetch A (bearer_get (or_else au ''http://localhost:3000'' @ ''/api/schedules/execute'')
            (text_of cs)) = Inr r \<and> \<not> ok r"
  note eq = pollSchedules_rejected [OF assms conjunct1 [OF h] conjunct2 [OF h]]
  show "pollSchedules E A tr =
           (Inr (), tr\<lparr>logged := logged tr @
               [(Debug, [Lit ''Polling schedules...'']),
                (Error, [Lit ''Schedule polling failed: '', Code (status r), Lit '' '',
                         Str (statusText r)])],
              requests := requests tr @
               [bearer_get (or_else au ''http://localhost:3000'' @ ''/api/schedules/execute'')
                  (text_of cs)]\<rparr>)"
    by (rule eq)
  show "body_reads (snd (pollSchedules E A tr)) = body_reads tr" by (simp add: eq)
  show "length (requests (snd (pollSchedules E A tr))) = Suc (length (requests tr))"
    by (simp add: eq)
next
  assume h: "fetch A (bearer_get (or_else au ''http://localhost:3000'' @ ''/api/webhooks/poll/outlook'')
            (text_of cs)) = Inr r \<and> \<not> ok r"
  note eq = pollOutlook_rejected [OF assms conjunct1 [OF h] conjunct2 [OF h]]
  show "pollOutlook E A tr =
           (Inr (), tr\<lparr>logged := logged tr @
               [(Debug, [Lit ''Polling Outlook...'']),
                (Error, [Lit ''Outlook polling failed: '', Code (status r), Lit '' '',
                         Str (statusText r)])],
              requests := requests tr @
               [bearer_get (or_else au ''http://localhost:3000'' @ ''/api/webhooks/poll/outlook'')
                  (text_of cs)]\<rparr>)"
    by (rule eq)
  show "body_reads (snd (pollOutlook E A tr)) = body_reads tr" by (simp add: eq)
  show "length (requests (snd (pollOutlook E A tr))) = Suc (length (requests tr))"
    by (simp add: eq)
qed

theorem non_2xx_handling_witness:
  "\<not> ok \<lparr>status = 500, statusText = ''Internal Server Error'',
          json = Inr (JObj [(''executedCount'', JNum (Fin 3))])\<rparr> \<and>
   pollSchedules sample_engine
       (replying 500 ''Internal Server Error'' (Inr (JObj [(''executedCount'', JNum (Fin 3))]))) silent =
     (Inr (),
      \<lparr>logged = [(Debug, [Lit ''Polling schedules...'']),
                 (Error, [Lit ''Schedule polling failed: '', Code 500, Lit '' '',
                          Str ''Internal Server Error''])],
       requests = [bearer_get ''http://localhost:3000/api/schedules/execute'' ''s3cret''],
       body_reads = 0\<rparr>) \<and>
   pollOutlook sample_engine
       (replying 500 ''Internal Server Error'' (Inr (JObj [(''executedCount'', JNum (Fin 3))]))) silent =
     (Inr (),
      \<lparr>logged = [(Debug, [Lit ''Polling Outlook...'']),
                 (Error, [Lit ''Outlook polling failed: '', Code 500, Lit '' '',
                          Str ''Internal Server Error''])],
       requests = [bearer_get ''http://localhost:3000/api/webhooks/poll/outlook'' ''s3cret''],
       body_reads = 0\<rparr>)"
  using non_2xx_handling [OF replying_reads(1) replying_reads(2) replying_reads(4),
      of 500 "''Internal Server Error''" "Inr (JObj [(''executedCount'', JNum (Fin 3))])"
        "\<lparr>status = 500, statusText = ''Internal Server Error'',
          json = Inr (JObj [(''executedCount'', JNum (Fin 3))])\<rparr>" sample_engine silent]
  by (simp add: replying_reads(3) ok_def silent_def or_else_def text_of_def)

lemma sample_engine_text:
  "NumberToString sample_engine (Fin 2) = ''2''"
  "NumberToString sample_engine (Fin 3) = ''3''"
  "NumberToString sample_engine (Fin 4) = ''4''"
  "StringToNumber sample_engine ''3'' = Fin 3"
  by (simp_all add: sample_engine_def decimal.simps is_digit_def digit_value_def)

lemma gt_zero_number: "gt_zero E (JNum (Fin q)) = Inr (0 < q)"
  by (simp add: gt_zero_def)

text \<open>
  Claim C7, amended. For a response with a status in 200..299 whose body parses to a value
  other than null: when the comparison \<open>executedCount > 0\<close>, as JavaScript evaluates
  it, is true, the Schedule task logs at info level a line with the text of the count, and
  when it is false the task logs at debug level; the Outlook task does the same on
  \<open>total\<close>, its info line holding the texts of \<open>total\<close> and \<open>successful\<close>,
  provided that \<open>successful\<close> can be converted to text. The comparison is true or false
  for every value that can be converted, that is, one holding no object with a property
  \<open>toString\<close> of its own. For a number it is true when the number is positive, which for
  a count (a natural number) means that it is not zero.
\<close>

theorem count_based_verbosity:
  assumes "NEXT_PUBLIC_APP_URL A = Inr au" and "CRON_SECRET A = Inr cs" and "\<not> falsy cs"
    and "ok r" and "json r = Inr data" and "data \<noteq> JNull" and "data \<noteq> JUndefined"
  shows "(fetch A (bearer_get (or_else au ''http://localhost:3000'' @ ''/api/schedules/execute'')
            (text_of cs)) = Inr r \<and>
          gt_zero E (prop_value data ExecutedCount) = Inr True \<longrightarrow>
          (\<exists>s. ToString E (prop_value data ExecutedCount) = Inr s \<and>
           pollSchedules E A tr =
            (Inr (), tr\<lparr>logged := logged tr @
                [(Debug, [Lit ''Polling schedules...'']),
                 (Info, [Lit ''Schedule poll completed: '', Str s, Lit '' workflows executed''])],
               requests := requests tr @
                [bearer_get (or_else au ''http://localhost:3000'' @ ''/api/schedules/execute'')
                   (text_of cs)],
               body_reads := Suc (body_reads tr)\<rparr>))) \<and>
         (fetch A (bearer_get (or_else au ''http://localhost:3000'' @ ''/api/schedules/execute'')
            (text_of cs)) = Inr r \<and>
          gt_zero E (prop_value data ExecutedCount) = Inr False \<longrightarrow>
          pollSchedules E A tr =
            (Inr (), tr\<lparr>logged := logged tr @
                [(Debug, [Lit ''Polling schedules...'']),
                 (Debug, [Lit ''Schedule poll completed: no workflows due''])],
               requests := requests tr @
                [bearer_get (or_else au ''http://localhost:3000'' @ ''/api/schedules/execute'')
                   (text_of cs)],
               body_reads := Suc (body_reads tr)\<rparr>)) \<and>
         (fetch A (bearer_get (or_else au ''http://localhost:3000'' @ ''/api/webhooks/poll/outlook'')
            (text_of cs)) = Inr r \<and>
          gt_zero E (prop_value data Total) = Inr True \<and>
          convertible (prop_value data Successful) \<longrightarrow>
          (\<exists>s s'. ToString E (prop_value data Total) = Inr s \<and>
             ToString E (prop_value data Successful) = Inr s' \<and>
           pollOutlook E A tr =
            (Inr (), tr\<lparr>logged := logged tr @
                [(Debug, [Lit ''Polling Outlook...'']),
                 (Info, [Lit ''Outlook poll completed: '', Str s, Lit '' webhooks checked, '',
                         Str s', Lit '' successful''])],
               requests := requests tr @
                [bearer_get (or_else au ''http://localhost:3000'' @ ''/api/webhooks/poll/outlook'')
                   (text_of cs)],
               body_reads := Suc (body_reads tr)\<rparr>))) \<and>
         (fetch A (bearer_get (or_else au ''http://localhost:3000'' @ ''/api/webhooks/poll/outlook'')
            (text_of cs)) = Inr r \<and>
          gt_zero E (prop_value data Total) = Inr False \<longrightarrow>
          pollOutlook E A tr =
            (Inr (), tr\<lparr>logged := logged tr @
                [(Debug, [Lit ''Polling Outlook...'']),
                 (Debug, [Lit ''Outlook poll completed: no active webhooks''])],
               requests := requests tr @
                [bearer_get (or_else au ''http://localhost:3000'' @ ''/api/webhooks/poll/outlook'')
                   (text_of cs)],
               body_reads := Suc (body_reads tr)\<rparr>)) \<and>
         (convertible v \<longrightarrow> (\<exists>b. gt_zero E v = Inr b)) \<and>
         gt_zero E (JNum (Fin q)) = Inr (0 < q) \<and>
         gt_zero E (JNum (Fin (of_nat n))) = Inr (n \<noteq> 0) \<and>
         ToString E (JNum x) = Inr (NumberToString E x)"
proof -
  note env = assms(1-3) and body = assms(4-7)
  have s_info: "(fetch A (bearer_get (or_else au ''http://localhost:3000'' @ ''/api/schedules/execute'')
                (text_of cs)) = Inr r \<and>
              gt_zero E (prop_value data ExecutedCount) = Inr True \<longrightarrow>
              (\<exists>s. ToString E (prop_value data ExecutedCount) = Inr s \<and>
               pollSchedules E A tr =
                (Inr (), tr\<lparr>logged := logged tr @
                    [(Debug, [Lit ''Polling schedules...'']),
                     (Info, [Lit ''Schedule poll completed: '', Str s, Lit '' workflows executed''])],
                   requests := requests tr @
                    [bearer_get (or_else au ''http://localhost:3000'' @ ''/api/schedules/execute'')
                       (text_of cs)],
                   body_reads := Suc (body_reads tr)\<rparr>)))"
  proof (intro impI, elim conjE)
    assume f: "fetch A (bearer_get (or_else au ''http://localhost:3000'' @ ''/api/schedules/execute'')
            (text_of cs)) = Inr r"
      and g: "gt_zero E (prop_value data ExecutedCount) = Inr True"
    from ToString_returns [OF gt_zero_convertible [OF g], of E]
    obtain s where s: "ToString E (prop_value data ExecutedCount) = Inr s" by blast
    from s pollSchedules_info [OF env f body g s, of tr]
    show "\<exists>s. ToString E (prop_value data ExecutedCount) = Inr s \<and>
           pollSchedules E A tr =
            (Inr (), tr\<lparr>logged := logged tr @
                [(Debug, [Lit ''Polling schedules...'']),
                 (Info, [Lit ''Schedule poll completed: '', Str s, Lit '' workflows executed''])],
               requests := requests tr @
                [bearer_get (or_else au ''http://localhost:3000'' @ ''/api/schedules/execute'')
                   (text_of cs)],
               body_reads := Suc (body_reads tr)\<rparr>)"
      by blast
  qed
  have s_debug: "(fetch A (bearer_get (or_else au ''http://localhost:3000'' @ ''/api/schedules/execute'')
                (text_of cs)) = Inr r \<and>
              gt_zero E (prop_value data ExecutedCount) = Inr False \<longrightarrow>
              pollSchedules E A tr =
                (Inr (), tr\<lparr>logged := logged tr @
                    [(Debug, [Lit ''Polling schedules...'']),
                     (Debug, [Lit ''Schedule poll completed: no workflows due''])],
                   requests := requests tr @
                    [bearer_get (or_else au ''http://localhost:3000'' @ ''/api/schedules/execute'')
                       (text_of cs)],
                   body_reads := Suc (body_reads tr)\<rparr>))"
    by (intro impI, elim conjE, rule pollSchedules_debug [OF env _ body]; assumption)
  have o_info: "(fetch A (bearer_get (or_else au ''http://localhost:3000'' @ ''/api/webhooks/poll/outlook'')
                (text_of cs)) = Inr r \<and>
              gt_zero E (prop_value data Total) = Inr True \<and>
              convertible (prop_value data Successful) \<longrightarrow>
              (\<exists>s s'. ToString E (prop_value data Total) = Inr s \<and>
                 ToString E (prop_value data Successful) = Inr s' \<and>
               pollOutlook E A tr =
                (Inr (), tr\<lparr>logged := logged tr @
                    [(Debug, [Lit ''Polling Outlook...'']),
                     (Info, [Lit ''Outlook poll completed: '', Str s, Lit '' webhooks checked, '',
                             Str s', Lit '' successful''])],
                   requests := requests tr @
                    [bearer_get (or_else au ''http://localhost:3000'' @ ''/api/webhooks/poll/outlook'')
                       (text_of cs)],
                   body_reads := Suc (body_reads tr)\<rparr>)))"
  proof (intro impI, elim conjE)
    assume f: "fetch A (bearer_get (or_else au ''http://localhost:3000'' @ ''/api/webhooks/poll/outlook'')
            (text_of cs)) = Inr r"
      and g: "gt_zero E (prop_value data Total) = Inr True"
      and c: "convertible (prop_value data Successful)"
    from ToString_returns [OF gt_zero_convertible [OF g], of E]
    obtain s where s: "ToString E (prop_value data Total) = Inr s" by blast
    from ToString_returns [OF c, of E]
    obtain s' where s': "ToString E (prop_value data Successful) = Inr s'" by blast
    from s s' pollOutlook_info [OF env f body g s s', of tr]
    show "\<exists>s s'. ToString E (prop_value data Total) = Inr s \<and>
             ToString E (prop_value data Successful) = Inr s' \<and>
           pollOutlook E A tr =
            (Inr (), tr\<lparr>logged := logged tr @
                [(Debug, [Lit ''Polling Outlook...'']),
                 (Info, [Lit ''Outlook poll completed: '', Str s, Lit '' webhooks checked, '',
                         Str s', Lit '' successful''])],
               requests := requests tr @
                [bearer_get (or_else au ''http://localhost:3000'' @ ''/api/webhooks/poll/outlook'')
                   (text_of cs)],
               body_reads := Suc (body_reads tr)\<rparr>)"
      by blast
  qed
  have o_debug: "(fetch A (bearer_get (or_else au ''http://localhost:3000'' @ ''/api/webhooks/poll/outlook'')
                (text_of cs)) = Inr r \<and>
              gt_zero E (prop_value data Total) = Inr False \<longrightarrow>
              pollOutlook E A tr =
                (Inr (), tr\<lparr>logged := logged tr @
                    [(Debug, [Lit ''Polling Outlook...'']),
                     (Debug, [Lit ''Outlook poll completed: no active webhooks''])],
                   requests := requests tr @
                    [bearer_get (or_else au ''http://localhost:3000'' @ ''/api/webhooks/poll/outlook'')
                       (text_of cs)],
                   body_reads := Suc (body_reads tr)\<rparr>))"
    by (intro impI, elim conjE, rule pollOutlook_debug [OF env _ body]; assumption)
  have conv: "convertible v \<longrightarrow> (\<exists>b. gt_zero E v = Inr b)"
    by (simp add: gt_zero_returns)
  have num: "gt_zero E (JNum (Fin q)) = Inr (0 < q)"
    "gt_zero E (JNum (Fin (of_nat n))) = Inr (n \<noteq> 0)"
    "ToString E (JNum x) = Inr (NumberToString E x)"
    by (simp_all add: gt_zero_number)
  show ?thesis
    using s_info s_debug o_info o_debug conv num by (intro conjI) assumption+
qed

theorem count_based_verbosity_witness:
  "pollSchedules sample_engine
      (replying 200 ''OK'' (Inr (JObj [(''executedCount'', JNum (Fin 3))]))) silent =
     (Inr (),
      \<lparr>logged = [(Debug, [Lit ''Polling schedules...'']),
                 (Info, [Lit ''Schedule poll completed: '', Str ''3'', Lit '' workflows executed''])],
       requests = [bearer_get ''http://localhost:3000/api/schedules/execute'' ''s3cret''],
       body_reads = 1\<rparr>) \<and>
   pollSchedules sample_engine
      (replying 200 ''OK'' (Inr (JObj [(''executedCount'', JNum (Fin 0))]))) silent =
     (Inr (),
      \<lparr>logged = [(Debug, [Lit ''Polling schedules...'']),
                 (Debug, [Lit ''Schedule poll completed: no workflows due''])],
       requests = [bearer_get ''http://localhost:3000/api/schedules/execute'' ''s3cret''],
       body_reads = 1\<rparr>) \<and>
   pollOutlook sample_engine
      (replying 200 ''OK'' (Inr (JObj [(''total'', JNum (Fin 4)), (''successful'', JNum (Fin 2))]))) silent =
     (Inr (),
      \<lparr>logged = [(Debug, [Lit ''Polling Outlook...'']),
                 (Info, [Lit ''Outlook poll completed: '', Str ''4'', Lit '' webhooks checked, '',
                         Str ''2'', Lit '' successful''])],
       requests = [bearer_get ''http://localhost:3000/api/webhooks/poll/outlook'' ''s3cret''],
       body_reads = 1\<rparr>) \<and>
   pollOutlook sample_engine
      (replying 200 ''OK'' (Inr (JObj [(''total'', JNum (Fin 0)), (''successful'', JNum (Fin 0))]))) silent =
     (Inr (),
      \<lparr>logged = [(Debug, [Lit ''Polling Outlook...'']),
                 (Debug, [Lit ''Outlook poll completed: no active webhooks''])],
       requests = [bearer_get ''http://localhost:3000/api/webhooks/poll/outlook'' ''s3cret''],
       body_reads = 1\<rparr>)"
proof -
  have k: "ok \<lparr>status = 200, statusText = ''OK'', json = b\<rparr>" for b by (simp add: ok_def)
  have j: "json \<lparr>status = 200, statusText = ''OK'', json = Inr (JObj kvs)\<rparr> = Inr (JObj kvs)"
    for kvs by simp
  have n: "JObj kvs \<noteq> JNull" "JObj kvs \<noteq> JUndefined" for kvs by simp_all
  from count_based_verbosity [where E = sample_engine and tr = silent
        and A = "replying 200 ''OK'' (Inr (JObj [(''executedCount'', JNum (Fin 3))]))"
        and data = "JObj [(''executedCount'', JNum (Fin 3))]"
        and r = "\<lparr>status = 200, statusText = ''OK'', json = Inr (JObj [(''executedCount'', JNum (Fin 3))])\<rparr>",
      OF replying_reads(1) replying_reads(2) replying_reads(4) k j n]
    count_based_verbosity [where E = sample_engine and tr = silent
        and A = "replying 200 ''OK'' (Inr (JObj [(''executedCount'', JNum (Fin 0))]))"
        and data = "JObj [(''executedCount'', JNum (Fin 0))]"
        and r = "\<lparr>status = 200, statusText = ''OK'', json = Inr (JObj [(''executedCount'', JNum (Fin 0))])\<rparr>",
      OF replying_reads(1) replying_reads(2) replying_reads(4) k j n]
    count_based_verbosity [where E = sample_engine and tr = silent
        and A = "replying 200 ''OK'' (Inr (JObj [(''total'', JNum (Fin 4)), (''successful'', JNum (Fin 2))]))"
        and data = "JObj [(''total'', JNum (Fin 4)), (''successful'', JNum (Fin 2))]"
        and r = "\<lparr>status = 200, statusText = ''OK'', json = Inr (JObj [(''total'', JNum (Fin 4)), (''successful'', JNum (Fin 2))])\<rparr>",
      OF replying_reads(1) replying_reads(2) replying_reads(4) k j n]
    count_based_verbosity [where E = sample_engine and tr = silent
        and A = "replying 200 ''OK'' (Inr (JObj [(''total'', JNum (Fin 0)), (''successful'', JNum (Fin 0))]))"
        and data = "JObj [(''total'', JNum (Fin 0)), (''successful'', JNum (Fin 0))]"
        and r = "\<lparr>status = 200, statusText = ''OK'', json = Inr (JObj [(''total'', JNum (Fin 0)), (''successful'', JNum (Fin 0))])\<rparr>",
      OF replying_reads(1) replying_reads(2) replying_reads(4) k j n]
  show ?thesis
    by (simp add: replying_reads(3) silent_def gt_zero_def or_else_def text_of_def
        sample_engine_text)
qed

text \<open>
  As stated, claim C7 fails: a count of \<open>-1\<close> is not zero and is logged at debug level;
  a response with status 200 whose body does not parse is logged at error level, neither
  at info nor at debug level; and so is one whose \<open>total\<close> is 4 and whose
  \<open>successful\<close> is an object with a property \<open>toString\<close>.
\<close>

theorem count_based_verbosity_counterexample:
  "(- 1 :: rat) \<noteq> 0 \<and>
   ok \<lparr>status = 200, statusText = ''OK'', json = Inr (JObj [(''executedCount'', JNum (Fin (- 1)))])\<rparr> \<and>
   pollSchedules sample_engine
      (replying 200 ''OK'' (Inr (JObj [(''executedCount'', JNum (Fin (- 1)))]))) silent =
     (Inr (),
      \<lparr>logged = [(Debug, [Lit ''Polling schedules...'']),
                 (Debug, [Lit ''Schedule poll completed: no workflows due''])],
       requests = [bearer_get ''http://localhost:3000/api/schedules/execute'' ''s3cret''],
       body_reads = 1\<rparr>) \<and>
   pollSchedules sample_engine (replying 200 ''OK'' (Inl (Thrown ''SyntaxError''))) silent =
     (Inr (),
      \<lparr>logged = [(Debug, [Lit ''Polling schedules...'']),
                 (Error, [Lit ''Error polling schedules:'', Caught (Thrown ''SyntaxError'')])],
       requests = [bearer_get ''http://localhost:3000/api/schedules/execute'' ''s3cret''],
       body_reads = 1\<rparr>) \<and>
   pollOutlook sample_engine
      (replying 200 ''OK''
        (Inr (JObj [(''total'', JNum (Fin 4)),
                    (''successful'', JObj [(''toString'', JNum (Fin 1))])]))) silent =
     (Inr (),
      \<lparr>logged = [(Debug, [Lit ''Polling Outlook...'']),
                 (Error, [Lit ''Error polling Outlook:'', Caught TypeError_convert])],
       requests = [bearer_get ''http://localhost:3000/api/webhooks/poll/outlook'' ''s3cret''],
       body_reads = 1\<rparr>)"
  by (simp add: pollSchedules_def pollSchedules_try_def pollOutlook_def pollOutlook_try_def
      replying_def silent_def emit_def falsy_def or_else_def text_of_def ok_def gt_zero_def
      Let_def)

lemma gt_zero_false:
  "gt_zero E JUndefined = Inr False" "gt_zero E JNull = Inr False"
  "gt_zero E (JBool False) = Inr False" "gt_zero E (JNum NaN) = Inr False"
  "gt_zero E (JNum NegInf) = Inr False"
  by (simp_all add: gt_zero_def)

text \<open>
  Claim C10, amended. For a response with a status in 200..299 whose body parses to a value
  other than null: when the count field (\<open>executedCount\<close>, \<open>total\<close>) is missing, or
  its value converts to a number that is not greater than zero, the task logs at debug
  level, logs nothing at error level, and its promise is fulfilled. A field is missing in
  an object without the key and in every body that is not an object; a missing field, null,
  false, NaN, negative infinity and every number that is not positive are not greater than
  zero.
\<close>

theorem unusable_count_is_quiet:
  assumes "NEXT_PUBLIC_APP_URL A = Inr au" and "CRON_SECRET A = Inr cs" and "\<not> falsy cs"
    and "ok r" and "json r = Inr data" and "data \<noteq> JNull" and "data \<noteq> JUndefined"
  shows "(fetch A (bearer_get (or_else au ''http://localhost:3000'' @ ''/api/schedules/execute'')
            (text_of cs)) = Inr r \<and>
          gt_zero E (prop_value data ExecutedCount) = Inr False \<longrightarrow>
          pollSchedules E A tr =
            (Inr (), tr\<lparr>logged := logged tr @
                [(Debug, [Lit ''Polling schedules...'']),
                 (Debug, [Lit ''Schedule poll completed: no workflows due''])],
               requests := requests tr @
                [bearer_get (or_else au ''http://localhost:3000'' @ ''/api/schedules/execute'')
                   (text_of cs)],
               body_reads := Suc (body_reads tr)\<rparr>)) \<and>
         (fetch A (bearer_get (or_else au ''http://localhost:3000'' @ ''/api/webhooks/poll/outlook'')
            (text_of cs)) = Inr r \<and>
          gt_zero E (prop_value data Total) = Inr False \<longrightarrow>
          pollOutlook E A tr =
            (Inr (), tr\<lparr>logged := logged tr @
                [(Debug, [Lit ''Polling Outlook...'']),
                 (Debug, [Lit ''Outlook poll completed: no active webhooks''])],
               requests := requests tr @
                [bearer_get (or_else au ''http://localhost:3000'' @ ''/api/webhooks/poll/outlook'')
                   (text_of cs)],
               body_reads := Suc (body_reads tr)\<rparr>)) \<and>
         (map_of (rev kvs) (field_name f) = None \<longrightarrow> prop_value (JObj kvs) f = JUndefined) \<and>
         prop_value (JBool b) f = JUndefined \<and>
         prop_value (JNum x) f = JUndefined \<and>
         prop_value (JStr s) f = JUndefined \<and>
         prop_value (JArr xs) f = JUndefined \<and>
         gt_zero E JUndefined = Inr False \<and>
         gt_zero E JNull = Inr False \<and>
         gt_zero E (JBool False) = Inr False \<and>
         gt_zero E (JNum NaN) = Inr False \<and>
         gt_zero E (JNum NegInf) = Inr False \<and>
         (q \<le> 0 \<longrightarrow> gt_zero E (JNum (Fin q)) = Inr False)"
proof -
  note env = assms(1-3) and body = assms(4-7)
  have sd: "(fetch A (bearer_get (or_else au ''http://localhost:3000'' @ ''/api/schedules/execute'')
                (text_of cs)) = Inr r \<and>
              gt_zero E (prop_value data ExecutedCount) = Inr False \<longrightarrow>
              pollSchedules E A tr =
                (Inr (), tr\<lparr>logged := logged tr @
                    [(Debug, [Lit ''Polling schedules...'']),
                     (Debug, [Lit ''Schedule poll completed: no workflows due''])],
                   requests := requests tr @
                    [bearer_get (or_else au ''http://localhost:3000'' @ ''/api/schedules/execute'')
                       (text_of cs)],
                   body_reads := Suc (body_reads tr)\<rparr>))"
    by (intro impI, elim conjE, rule pollSchedules_debug [OF env _ body]; assumption)
  have od: "(fetch A (bearer_get (or_else au ''http://localhost:3000'' @ ''/api/webhooks/poll/outlook'')
                (text_of cs)) = Inr r \<and>
              gt_zero E (prop_value data Total) = Inr False \<longrightarrow>
              pollOutlook E A tr =
                (Inr (), tr\<lparr>logged := logged tr @
                    [(Debug, [Lit ''Polling Outlook...'']),
                     (Debug, [Lit ''Outlook poll completed: no active webhooks''])],
                   requests := requests tr @
                    [bearer_get (or_else au ''http://localhost:3000'' @ ''/api/webhooks/poll/outlook'')
                       (text_of cs)],
                   body_reads := Suc (body_reads tr)\<rparr>))"
    by (intro impI, elim conjE, rule pollOutlook_debug [OF env _ body]; assumption)
  have m: "map_of (rev kvs) (field_name f) = None \<longrightarrow> prop_value (JObj kvs) f = JUndefined"
    by simp
  have p: "prop_value (JBool b) f = JUndefined" "prop_value (JNum x) f = JUndefined"
    "prop_value (JStr s) f = JUndefined" "prop_value (JArr xs) f = JUndefined"
    by simp_all
  have n: "q \<le> 0 \<longrightarrow> gt_zero E (JNum (Fin q)) = Inr False"
    by (simp add: gt_zero_number)
  show ?thesis
    using sd od m p gt_zero_false [of E] n by (intro conjI) assumption+
qed

theorem unusable_count_is_quiet_witness:
  "pollSchedules sample_engine (replying 200 ''OK'' (Inr (JObj []))) silent =
     (Inr (),
      \<lparr>logged = [(Debug, [Lit ''Polling schedules...'']),
                 (Debug, [Lit ''Schedule poll completed: no workflows due''])],
       requests = [bearer_get ''http://localhost:3000/api/schedules/execute'' ''s3cret''],
       body_reads = 1\<rparr>) \<and>
   pollOutlook sample_engine (replying 200 ''OK'' (Inr (JObj []))) silent =
     (Inr (),
      \<lparr>logged = [(Debug, [Lit ''Polling Outlook...'']),
                 (Debug, [Lit ''Outlook poll completed: no active webhooks''])],
       requests = [bearer_get ''http://localhost:3000/api/webhooks/poll/outlook'' ''s3cret''],
       body_reads = 1\<rparr>) \<and>
   pollSchedules sample_engine (replying 200 ''OK'' (Inr (JObj [(''executedCount'', JNull)]))) silent =
     (Inr (),
      \<lparr>logged = [(Debug, [Lit ''Polling schedules...'']),
                 (Debug, [Lit ''Schedule poll completed: no workflows due''])],
       requests = [bearer_get ''http://localhost:3000/api/schedules/execute'' ''s3cret''],
       body_reads = 1\<rparr>)"
proof -
  have k: "ok \<lparr>status = 200, statusText = ''OK'', json = b\<rparr>" for b by (simp add: ok_def)
  have j: "json \<lparr>status = 200, statusText = ''OK'', json = Inr (JObj kvs)\<rparr> = Inr (JObj kvs)"
    for kvs by simp
  have n: "JObj kvs \<noteq> JNull" "JObj kvs \<noteq> JUndefined" for kvs by simp_all
  from unusable_count_is_quiet [where E = sample_engine and tr = silent
        and A = "replying 200 ''OK'' (Inr (JObj []))" and data = "JObj []"
        and r = "\<lparr>status = 200, statusText = ''OK'', json = Inr (JObj [])\<rparr>",
      OF replying_reads(1) replying_reads(2) replying_reads(4) k j n]
    unusable_count_is_quiet [where E = sample_engine and tr = silent
        and A = "replying 200 ''OK'' (Inr (JObj [(''executedCount'', JNull)]))"
        and data = "JObj [(''executedCount'', JNull)]"
        and r = "\<lparr>status = 200, statusText = ''OK'',
                  json = Inr (JObj [(''executedCount'', JNull)])\<rparr>",
      OF replying_reads(1) replying_reads(2) replying_reads(4) k j n]
  show ?thesis
    by (simp add: replying_reads(3) silent_def gt_zero_def or_else_def text_of_def)
qed

text \<open>
  As stated, claim C10 fails: the value \<open>true\<close> is not a number, yet \<open>true > 0\<close>
  holds in JavaScript and the task logs at info level, as it does for the string
  \<open>"3"\<close>; the body \<open>null\<close> has no count field, the read of the field throws and
  the task logs at error level; and a count that is an object with a property
  \<open>toString\<close> makes the comparison throw, which is logged at error level too.
\<close>

theorem unusable_count_is_quiet_counterexample:
  "pollSchedules sample_engine (replying 200 ''OK'' (Inr (JObj [(''executedCount'', JBool True)]))) silent =
     (Inr (),
      \<lparr>logged = [(Debug, [Lit ''Polling schedules...'']),
                 (Info, [Lit ''Schedule poll completed: '', Str ''true'',
                         Lit '' workflows executed''])],
       requests = [bearer_get ''http://localhost:3000/api/schedules/execute'' ''s3cret''],
       body_reads = 1\<rparr>) \<and>
   pollSchedules sample_engine (replying 200 ''OK'' (Inr (JObj [(''executedCount'', JStr ''3'')]))) silent =
     (Inr (),
      \<lparr>logged = [(Debug, [Lit ''Polling schedules...'']),
                 (Info, [Lit ''Schedule poll completed: '', Str ''3'',
                         Lit '' workflows executed''])],
       requests = [bearer_get ''http://localhost:3000/api/schedules/execute'' ''s3cret''],
       body_reads = 1\<rparr>) \<and>
   pollSchedules sample_engine (replying 200 ''OK'' (Inr (JNull))) silent =
     (Inr (),
      \<lparr>logged = [(Debug, [Lit ''Polling schedules...'']),
                 (Error, [Lit ''Error polling schedules:'', Caught TypeError_read])],
       requests = [bearer_get ''http://localhost:3000/api/schedules/execute'' ''s3cret''],
       body_reads = 1\<rparr>) \<and>
   pollSchedules sample_engine (replying 200 ''OK'' (Inr (JObj [(''executedCount'', JObj [(''toString'', JNum (Fin 1))])]))) silent =
     (Inr (),
      \<lparr>logged = [(Debug, [Lit ''Polling schedules...'']),
                 (Error, [Lit ''Error polling schedules:'', Caught TypeError_convert])],
       requests = [bearer_get ''http://localhost:3000/api/schedules/execute'' ''s3cret''],
       body_reads = 1\<rparr>)"
  by (simp add: pollSchedules_def pollSchedules_try_def replying_def silent_def emit_def
      falsy_def or_else_def text_of_def ok_def gt_zero_def sample_engine_text Let_def)

end
